theory Spec2Isabelle
  imports
    Complex_Main
    "HOL-Library.AList"
    "HOL-Library.Sublist"
    "HOL-Library.Char_ord"
    "HOL-Library.List_Lexorder"
begin

section \<open>Python strings\<close>

text \<open>
  A Python \<open>str\<close> is modelled as a list of characters, one per code point; the
  8-bit type \<open>char\<close> covers the code points 0..255.  \<open>str.startswith\<close> is
  \<open>prefix\<close>, the substring test \<open>a in b\<close> is \<open>sublist a b\<close>, and string
  comparison is the lexicographic order on code points.
\<close>

definition startswith :: "string \<Rightarrow> string list \<Rightarrow> bool" where
  "startswith s pfxs = list_ex (\<lambda>p. prefix p s) pfxs"

definition contains :: "string \<Rightarrow> string \<Rightarrow> bool" where
  "contains needle s = sublist needle s"

text \<open>\<open>str.isspace\<close> on the code points 0..255, and \<open>str.strip()\<close>.\<close>

definition is_space :: "char \<Rightarrow> bool" where
  "is_space c =
     (let n = (of_char c :: nat)
      in (9 \<le> n \<and> n \<le> 13) \<or> (28 \<le> n \<and> n \<le> 32) \<or> n = 133 \<or> n = 160)"

definition strip :: "string \<Rightarrow> string" where
  "strip s = rev (dropWhile is_space (rev (dropWhile is_space s)))"

text \<open>The exceptions that the modelled code lets escape.\<close>

datatype py_error = OSError | OverflowError

text \<open>
  \<open>d.get(k, default)\<close> on a field that may be missing, and the value of
  \<open>a or b\<close> where \<open>a\<close> is such a field holding a string: the empty string and a
  missing field are both falsy.
\<close>

fun get_or :: "'a option \<Rightarrow> 'a \<Rightarrow> 'a" where
  "get_or None dflt = dflt"
| "get_or (Some v) dflt = v"

fun py_or :: "string option \<Rightarrow> string \<Rightarrow> string" where
  "py_or None alt = alt"
| "py_or (Some s) alt = (if s \<noteq> [] then s else alt)"

section \<open>config/severity\_map.py\<close>

definition SEVERITY_LEVELS :: "string list" where
  "SEVERITY_LEVELS = [''Critical'', ''High'', ''Medium'', ''Low'']"

definition THREAT_SEVERITY_MAP :: "(string \<times> string) list" where
  "THREAT_SEVERITY_MAP =
    [(''SQL Injection'', ''Critical''),
     (''SQLi - Tautology / OR 1=1'', ''Critical''),
     (''Command Injection / Shell'', ''Critical''),
     (''Sensitive File Access'', ''Critical''),
     (''SSRF / Internal Resource Access'', ''Critical''),
     (''Serialized Object Detected (Java)'', ''Critical''),
     (''Serialized Object Detected (Python)'', ''Critical''),
     (''Serialized Object Detected (.NET)'', ''Critical''),
     (''Malicious Package Download'', ''Critical''),
     (''CI/CD Script Execution'', ''Critical''),
     (''Unexpected Build Dependency Fetch'', ''Critical''),
     (''XSS'', ''High''),
     (''XSS - Advanced Payloads'', ''High''),
     (''Credential Stuffing Probe'', ''High''),
     (''Unauthorized Admin Access'', ''High''),
     (''Plaintext Credential Exposure'', ''High''),
     (''IDOR / Object Access Violation'', ''Medium''),
     (''Brute Force Attempt'', ''Medium''),
     (''Sensitive Data Over HTTP'', ''Medium''),
     (''Debug / Error Exposure'', ''Medium''),
     (''API Rate Abuse / Resource Exhaustion'', ''Medium''),
     (''Unhandled Exception Exposure'', ''Medium''),
     (''Directory Traversal'', ''Medium''),
     (''Failed Login'', ''Low''),
     (''Weak Crypto Indicator'', ''Low''),
     (''Excessive Data Exposure'', ''Low''),
     (''Repeated Error Without Alerting'', ''Low''),
     (''Discovery / Recon Probes'', ''Low'')]"

definition get_severity :: "string \<Rightarrow> string" where
  "get_severity threat_name =
     get_or (map_of THREAT_SEVERITY_MAP (strip threat_name)) ''Low''"

section \<open>core/detector.py\<close>

text \<open>
  A parsed (and possibly normalized) log entry is a dictionary with string values; a
  field is \<open>None\<close> when its key is missing.
\<close>

record log_entry =
  e_ip :: "string option"
  e_time :: "string option"
  e_request :: "string option"
  e_status :: "string option"
  e_raw :: "string option"
  e_message :: "string option"
  e_original :: "string option"
  e_normalized_request :: "string option"
  e_normalized_raw :: "string option"

record detection =
  d_rule :: "string option"
  d_severity :: "string option"
  d_ip :: "string option"
  d_time :: "string option"
  d_payload :: "string option"
  d_raw :: "string option"
  d_ioc_hit :: "bool option"

text \<open>
  The engine holds the injected reputation engine (\<open>None\<close> when none was injected;
  a query answers \<open>None\<close> when \<open>is_malicious\<close> raises) and the compiled rules in
  the order of \<open>DETECTION_RULES\<close>: a rule name with the \<open>search\<close> of its compiled
  pattern.
\<close>

record detection_engine =
  ioc_engine :: "(string \<Rightarrow> bool option) option"
  compiled_rules :: "(string \<times> (string \<Rightarrow> bool)) list"

definition escalate_severity :: "string \<Rightarrow> bool \<Rightarrow> string" where
  "escalate_severity severity ioc_hit =
     (if \<not> ioc_hit \<or> severity \<notin> set SEVERITY_LEVELS then severity
      else get_or
             (map_of [(''Low'', ''Medium''), (''Medium'', ''High''),
                      (''High'', ''Critical''), (''Critical'', ''Critical'')] severity)
             severity)"

definition ioc_check :: "detection_engine \<Rightarrow> string \<Rightarrow> bool" where
  "ioc_check eng ip =
     (case ioc_engine eng of
        None \<Rightarrow> False
      | Some is_malicious \<Rightarrow>
          if ip \<noteq> [] \<and> ip \<noteq> ''UNKNOWN''
          then (case is_malicious ip of None \<Rightarrow> False | Some b \<Rightarrow> b)
          else False)"

text \<open>The rule loop of \<open>analyze_entry\<close>, threading \<open>seen_rules\<close> and \<open>detections\<close>.\<close>

fun match_rules ::
  "(string \<times> (string \<Rightarrow> bool)) list \<Rightarrow> string list \<Rightarrow> string \<Rightarrow> string \<Rightarrow> string \<Rightarrow>
   string \<Rightarrow> bool \<Rightarrow> detection list \<Rightarrow> detection list" where
  "match_rules [] seen_rules payload ip timestamp raw ioc_hit detections = detections"
| "match_rules ((rule_name, search) # rules) seen_rules payload ip timestamp raw ioc_hit
     detections =
     (if rule_name \<in> set seen_rules
      then match_rules rules seen_rules payload ip timestamp raw ioc_hit detections
      else if search payload
      then match_rules rules (rule_name # seen_rules) payload ip timestamp raw ioc_hit
             (detections @
              [\<lparr>d_rule = Some rule_name,
                d_severity = Some (escalate_severity (get_severity rule_name) ioc_hit),
                d_ip = Some ip, d_time = Some timestamp, d_payload = Some payload,
                d_raw = Some raw, d_ioc_hit = Some ioc_hit\<rparr>])
      else match_rules rules seen_rules payload ip timestamp raw ioc_hit detections)"

definition entry_payload :: "log_entry \<Rightarrow> string" where
  "entry_payload entry = py_or (e_normalized_request entry) (py_or (e_message entry) [])"

definition entry_raw :: "log_entry \<Rightarrow> string" where
  "entry_raw entry =
     py_or (e_raw entry) (py_or (e_original entry) (get_or (e_message entry) []))"

definition ioc_only_detection :: "string \<Rightarrow> string \<Rightarrow> string \<Rightarrow> detection" where
  "ioc_only_detection ip timestamp raw =
     \<lparr>d_rule = Some ''Threat Intelligence Match'', d_severity = Some ''Critical'',
      d_ip = Some ip, d_time = Some timestamp,
      d_payload = Some ''N/A (IP Reputation Match)'', d_raw = Some raw,
      d_ioc_hit = Some True\<rparr>"

definition analyze_entry :: "detection_engine \<Rightarrow> log_entry \<Rightarrow> detection list" where
  "analyze_entry eng entry =
     (let payload = entry_payload entry;
          ip = get_or (e_ip entry) ''UNKNOWN'';
          timestamp = get_or (e_time entry) ''UNKNOWN'';
          raw = entry_raw entry;
          ioc_hit = ioc_check eng ip;
          detections = match_rules (compiled_rules eng) [] payload ip timestamp raw ioc_hit []
      in if ioc_hit \<and> detections = []
         then detections @ [ioc_only_detection ip timestamp raw]
         else detections)"

section \<open>core/normalizer.py\<close>

text \<open>
  The normalizer calls four functions of the Python standard library:
  \<open>urllib.parse.unquote_plus\<close>, \<open>html.unescape\<close>, \<open>str.isprintable\<close> and
  \<open>str.lower\<close>.  They are parameters of the model; a decoder answers \<open>None\<close> when
  it raises.
\<close>

record pylib =
  unquote_plus :: "string \<Rightarrow> string option"
  html_unescape :: "string \<Rightarrow> string option"
  isprintable :: "char \<Rightarrow> bool"
  lower :: "string \<Rightarrow> string"

definition MAX_LEN :: nat where
  "MAX_LEN = 2000"

definition HALF_LEN :: nat where
  "HALF_LEN = MAX_LEN div 2"

definition strip_control_chars :: "pylib \<Rightarrow> string \<Rightarrow> string" where
  "strip_control_chars L text = filter (isprintable L) text"

text \<open>
  The loop of \<open>recursive_decode\<close>: the first argument counts the iterations that are
  left, \<open>current\<close> is returned on \<open>break\<close> and when the range is exhausted.
\<close>

fun decode_loop :: "pylib \<Rightarrow> nat \<Rightarrow> string \<Rightarrow> string" where
  "decode_loop L 0 current = current"
| "decode_loop L (Suc n) current =
     (case unquote_plus L current of
        None \<Rightarrow> current
      | Some decoded1 \<Rightarrow>
          (case html_unescape L decoded1 of
             None \<Rightarrow> current
           | Some decoded \<Rightarrow>
               if decoded = current then current else decode_loop L n decoded))"

definition recursive_decode :: "pylib \<Rightarrow> string \<Rightarrow> nat \<Rightarrow> string" where
  "recursive_decode L text max_depth = (if text = [] then [] else decode_loop L max_depth text)"

definition normalize_log_entry :: "pylib \<Rightarrow> log_entry \<Rightarrow> log_entry" where
  "normalize_log_entry L entry =
     (let request = py_or (e_request entry) [];
          raw = py_or (e_raw entry) [];
          decoded_request = recursive_decode L request 3;
          decoded_raw = recursive_decode L raw 3;
          decoded_request = strip_control_chars L decoded_request;
          decoded_raw = strip_control_chars L decoded_raw;
          decoded_request = lower L decoded_request;
          decoded_raw = lower L decoded_raw;
          decoded_request =
            (if length decoded_request > MAX_LEN
             then take HALF_LEN decoded_request @ ''...'' @
                  drop (length decoded_request - HALF_LEN) decoded_request
             else decoded_request);
          decoded_raw =
            (if length decoded_raw > MAX_LEN
             then take HALF_LEN decoded_raw @ ''...'' @
                  drop (length decoded_raw - HALF_LEN) decoded_raw
             else decoded_raw)
      in entry\<lparr>e_normalized_request := Some decoded_request,
                e_normalized_raw := Some decoded_raw\<rparr>)"

text \<open>
  The text of a field after decoding, stripping and lower-casing, before the length
  guard: steps 1 to 3 of \<open>normalize_log_entry\<close>.
\<close>

definition decoded_text :: "pylib \<Rightarrow> string option \<Rightarrow> string" where
  "decoded_text L field =
     lower L (strip_control_chars L (recursive_decode L (py_or field []) 3))"

text \<open>
  The specification's wording of the truncated text: the first and the last 1000
  characters, joined by the elision marker.
\<close>

definition first_last_1000 :: "string \<Rightarrow> string" where
  "first_last_1000 t = take 1000 t @ ''...'' @ rev (take 1000 (rev t))"

subsection \<open>A concrete standard library\<close>

text \<open>
  To run the normalizer on concrete inputs, the four library functions are given here
  for the code points 0..255.  \<open>py_unquote\<close> follows \<open>urllib.parse.unquote\<close>: a
  \<open>%\<close> followed by two hexadecimal digits becomes the byte they denote, any other
  \<open>%\<close> is kept.  It agrees with CPython when every decoded byte is below 128
  (CPython decodes the bytes as UTF-8).  \<open>py_html_unescape\<close> returns its argument
  when it contains no \<open>&\<close>, as \<open>html.unescape\<close> does, and otherwise replaces
  the five predefined character references only.
\<close>

definition hexval :: "char \<Rightarrow> nat option" where
  "hexval c =
     (let n = (of_char c :: nat)
      in if 48 \<le> n \<and> n \<le> 57 then Some (n - 48)
         else if 65 \<le> n \<and> n \<le> 70 then Some (n - 55)
         else if 97 \<le> n \<and> n \<le> 102 then Some (n - 87)
         else None)"

fun py_unquote :: "string \<Rightarrow> string" where
  "py_unquote (c # h1 # h2 # rest) =
     (if c = CHR ''%''
      then (case (hexval h1, hexval h2) of
              (Some a, Some b) \<Rightarrow> char_of (16 * a + b) # py_unquote rest
            | _ \<Rightarrow> c # py_unquote (h1 # h2 # rest))
      else c # py_unquote (h1 # h2 # rest))"
| "py_unquote cs = cs"

definition py_unquote_plus :: "string \<Rightarrow> string" where
  "py_unquote_plus s = py_unquote (map (\<lambda>c. if c = CHR ''+'' then CHR '' '' else c) s)"

fun replace_refs :: "string \<Rightarrow> string" where
  "replace_refs [] = []"
| "replace_refs (c # cs) =
     (if prefix ''&amp;'' (c # cs) then CHR ''&'' # replace_refs (drop 4 cs)
      else if prefix ''&lt;'' (c # cs) then CHR ''<'' # replace_refs (drop 3 cs)
      else if prefix ''&gt;'' (c # cs) then CHR ''>'' # replace_refs (drop 3 cs)
      else if prefix ''&quot;'' (c # cs) then CHR 0x22 # replace_refs (drop 5 cs)
      else if prefix ''&#39;'' (c # cs) then CHR 0x27 # replace_refs (drop 4 cs)
      else c # replace_refs cs)"

definition py_html_unescape :: "string \<Rightarrow> string" where
  "py_html_unescape s = (if CHR ''&'' \<notin> set s then s else replace_refs s)"

definition py_isprintable :: "char \<Rightarrow> bool" where
  "py_isprintable c =
     (let n = (of_char c :: nat)
      in (32 \<le> n \<and> n \<le> 126) \<or> (161 \<le> n \<and> n \<le> 255 \<and> n \<noteq> 173))"

definition py_lower_char :: "char \<Rightarrow> char" where
  "py_lower_char c =
     (let n = (of_char c :: nat)
      in if (65 \<le> n \<and> n \<le> 90) \<or> (192 \<le> n \<and> n \<le> 222 \<and> n \<noteq> 215)
         then char_of (n + 32) else c)"

definition py_lib :: pylib where
  "py_lib =
     \<lparr>unquote_plus = (\<lambda>s. Some (py_unquote_plus s)),
      html_unescape = (\<lambda>s. Some (py_html_unescape s)),
      isprintable = py_isprintable,
      lower = map py_lower_char\<rparr>"

definition blank_entry :: log_entry where
  "blank_entry =
     \<lparr>e_ip = None, e_time = None, e_request = None, e_status = None, e_raw = None,
      e_message = None, e_original = None, e_normalized_request = None,
      e_normalized_raw = None\<rparr>"

section \<open>core/correlation.py\<close>

text \<open>
  A \<open>datetime\<close> is modelled by its number of microseconds since
  \<open>datetime.min\<close> (0001-01-01T00:00:00); the largest one, \<open>datetime.max\<close>, is
  9999-12-31T23:59:59.999999.  It is naive, or aware: then the number is that of its
  local fields and it carries its UTC offset, in microseconds.  Comparing a naive with
  an aware one raises \<open>TypeError\<close>.  The clock and the two parsers of the standard
  library are parameters: \<open>fromisoformat\<close> and \<open>strptime\<close> (with the format of the
  source) answer \<open>None\<close> when they raise.
\<close>

datatype pytime = Naive int | Aware int int

definition datetime_max :: int where
  "datetime_max = 3652059 * 86400000000 - 1"

record timelib =
  utcnow :: int
  fromisoformat :: "string \<Rightarrow> pytime option"
  strptime :: "string \<Rightarrow> int option"

record incident =
  i_ip :: string
  i_type :: string
  i_severity :: string
  i_count :: nat
  i_ioc_confirmed :: bool
  i_evidence :: "detection list"

text \<open>The engine's \<open>time_window\<close>, in microseconds.\<close>

record correlation_engine =
  time_window :: int

definition parse_time :: "timelib \<Rightarrow> string option \<Rightarrow> pytime" where
  "parse_time T time_str =
     (case time_str of
        None \<Rightarrow> Naive (utcnow T)
      | Some s \<Rightarrow>
          if s = [] \<or> s = ''UNKNOWN'' then Naive (utcnow T)
          else (case fromisoformat T s of
                  Some t \<Rightarrow> t
                | None \<Rightarrow>
                    (case strptime T (takeWhile (\<lambda>c. c \<noteq> CHR '' '') s) of
                       Some t \<Rightarrow> Naive t
                     | None \<Rightarrow> Naive (utcnow T))))"

text \<open>
  \<open>t - delta\<close> for a datetime and a timedelta of \<open>delta\<close> microseconds: the
  subtraction works on the local fields and raises \<open>OverflowError\<close> when the result
  is not between \<open>datetime.min\<close> and \<open>datetime.max\<close>.
\<close>

fun minus_delta :: "pytime \<Rightarrow> int \<Rightarrow> py_error + pytime" where
  "minus_delta (Naive t) delta =
     (if 0 \<le> t - delta \<and> t - delta \<le> datetime_max then Inr (Naive (t - delta))
      else Inl OverflowError)"
| "minus_delta (Aware t offset) delta =
     (if 0 \<le> t - delta \<and> t - delta \<le> datetime_max then Inr (Aware (t - delta) offset)
      else Inl OverflowError)"

text \<open>
  \<open>a >= b\<close> on datetimes; \<open>None\<close> is the \<open>TypeError\<close>.  Aware datetimes are
  compared after subtracting their UTC offsets.
\<close>

fun time_ge :: "pytime \<Rightarrow> pytime \<Rightarrow> bool option" where
  "time_ge (Naive a) (Naive b) = Some (a \<ge> b)"
| "time_ge (Aware a offset_a) (Aware b offset_b) = Some (a - offset_a \<ge> b - offset_b)"
| "time_ge _ _ = None"

text \<open>
  \<open>_filter_time_window\<close>.  Parsing the latest time never raises, so the first
  \<open>try\<close> always leaves with \<open>latest_time\<close>; the subtraction that gives
  \<open>cutoff\<close> stands outside any \<open>try\<close>, and its \<open>OverflowError\<close> leaves the
  function.
\<close>

definition filter_time_window ::
  "correlation_engine \<Rightarrow> timelib \<Rightarrow> detection list \<Rightarrow> py_error + detection list" where
  "filter_time_window C T events =
     (if events = [] then Inr []
      else
        let latest_time = parse_time T (d_time (last events))
        in case minus_delta latest_time (time_window C) of
             Inl err \<Rightarrow> Inl err
           | Inr cutoff \<Rightarrow>
               Inr (filter
                      (\<lambda>e. case time_ge (parse_time T (d_time e)) cutoff of
                              Some keep \<Rightarrow> keep
                            | None \<Rightarrow> True)
                      events))"

definition analyze_ip :: "string \<Rightarrow> detection list \<Rightarrow> incident list" where
  "analyze_ip ip events =
     (if events = [] then []
      else
        let failed_logins = filter (\<lambda>e. contains ''Failed Login'' (get_or (d_rule e) [])) events;
            incidents =
              (if length failed_logins \<ge> 5
               then [\<lparr>i_ip = ip, i_type = ''Brute Force Login Attack'', i_severity = ''High'',
                      i_count = length failed_logins,
                      i_ioc_confirmed = list_ex (\<lambda>e. d_ioc_hit e = Some True) failed_logins,
                      i_evidence = failed_logins\<rparr>]
               else []);
            scanner_hits = filter (\<lambda>e. contains ''Scanner'' (get_or (d_rule e) [])) events;
            exploit_hits = filter (\<lambda>e. d_severity e = Some ''Critical'') events;
            incidents = incidents @
              (if scanner_hits \<noteq> [] \<and> exploit_hits \<noteq> []
               then [\<lparr>i_ip = ip, i_type = ''Reconnaissance Followed by Exploitation'',
                      i_severity = ''Critical'',
                      i_count = length scanner_hits + length exploit_hits,
                      i_ioc_confirmed = list_ex (\<lambda>e. d_ioc_hit e = Some True) exploit_hits,
                      i_evidence = scanner_hits @ exploit_hits\<rparr>]
               else []);
            incidents = incidents @
              (if length exploit_hits \<ge> 3
               then [\<lparr>i_ip = ip, i_type = ''Repeated Critical Attack Attempts'',
                      i_severity = ''Critical'', i_count = length exploit_hits,
                      i_ioc_confirmed = list_ex (\<lambda>e. d_ioc_hit e = Some True) exploit_hits,
                      i_evidence = exploit_hits\<rparr>]
               else []);
            incidents = incidents @
              (if length events \<ge> 10
               then [\<lparr>i_ip = ip, i_type = ''High Volume Suspicious Activity'',
                      i_severity = ''Medium'', i_count = length events,
                      i_ioc_confirmed = list_ex (\<lambda>e. d_ioc_hit e = Some True) events,
                      i_evidence = events\<rparr>]
               else [])
        in incidents)"

text \<open>
  \<open>grouped_by_ip\<close> is a dictionary in insertion order: \<open>add_to_group\<close> appends a
  detection to the list under its key, creating the key at the end when it is new.
\<close>

fun add_to_group ::
  "string \<Rightarrow> detection \<Rightarrow> (string \<times> detection list) list \<Rightarrow> (string \<times> detection list) list" where
  "add_to_group k d [] = [(k, [d])]"
| "add_to_group k d ((k', es) # groups) =
     (if k = k' then (k', es @ [d]) # groups else (k', es) # add_to_group k d groups)"

fun group_by_ip ::
  "detection list \<Rightarrow> (string \<times> detection list) list \<Rightarrow> (string \<times> detection list) list" where
  "group_by_ip [] grouped = grouped"
| "group_by_ip (d # ds) grouped =
     group_by_ip ds (add_to_group (get_or (d_ip d) ''UNKNOWN'') d grouped)"

text \<open>\<open>list.sort\<close> is stable, as \<open>sort_key\<close> is.\<close>

text \<open>
  The loop of \<open>correlate\<close> over the groups, with the incidents collected so far; an
  exception of \<open>_filter_time_window\<close> ends it and leaves \<open>correlate\<close>.
\<close>

fun correlate_groups ::
  "correlation_engine \<Rightarrow> timelib \<Rightarrow> (string \<times> detection list) list \<Rightarrow> incident list \<Rightarrow>
   py_error + incident list" where
  "correlate_groups C T [] incidents = Inr incidents"
| "correlate_groups C T ((ip, events) # groups) incidents =
     (let events = sort_key (\<lambda>x. get_or (d_time x) []) events
      in case filter_time_window C T events of
           Inl err \<Rightarrow> Inl err
         | Inr recent_events \<Rightarrow>
             correlate_groups C T groups (incidents @ analyze_ip ip recent_events))"

definition correlate ::
  "correlation_engine \<Rightarrow> timelib \<Rightarrow> detection list \<Rightarrow> py_error + incident list" where
  "correlate C T detections =
     (if detections = [] then Inr []
      else correlate_groups C T (group_by_ip detections []) [])"

section \<open>intelligence/ioc\_loader.py\<close>

text \<open>
  Times are seconds since the epoch.  The cache file holds the last saved set and
  timestamp (\<open>None\<close> when there is no file).
\<close>

record ioc_engine_state =
  iocs :: "string set"
  last_updated :: real
  cache_file :: "(string set \<times> real) option"

text \<open>
  What a refresh meets outside the engine: \<open>http_get url\<close> is the list of lines of
  the response body, or \<open>None\<close> when the request or \<open>raise_for_status\<close> raises;
  \<open>save_ok\<close> says whether writing the cache file succeeds.
\<close>

record ioc_env =
  http_get :: "string \<Rightarrow> string list option"
  save_ok :: bool

definition IOC_FEEDS :: "(string \<times> string) list" where
  "IOC_FEEDS =
     [(''firehol_level1'',
       ''https://raw.githubusercontent.com/firehol/blocklist-ipsets/master/firehol_level1.netset'')]"

definition is_malicious :: "ioc_engine_state \<Rightarrow> string \<Rightarrow> bool" where
  "is_malicious st ip = (if ip = [] \<or> ip = ''UNKNOWN'' then False else ip \<in> iocs st)"

fun collect_lines :: "string list \<Rightarrow> string set \<Rightarrow> string set" where
  "collect_lines [] collected = collected"
| "collect_lines (line # lines) collected =
     (let line = strip line
      in if line \<noteq> [] \<and> \<not> startswith line [''#'']
         then collect_lines lines (insert line collected)
         else collect_lines lines collected)"

fun fetch_feeds ::
  "(string \<Rightarrow> string list option) \<Rightarrow> (string \<times> string) list \<Rightarrow> string set \<Rightarrow> string set" where
  "fetch_feeds get [] collected = collected"
| "fetch_feeds get ((name, url) # feeds) collected =
     (case get url of
        None \<Rightarrow> fetch_feeds get feeds collected
      | Some lines \<Rightarrow> fetch_feeds get feeds (collect_lines lines collected))"

text \<open>
  \<open>update_iocs\<close> returns the exception it leaves with (if any), the new state and
  the list of URLs it requested.
\<close>

definition update_iocs ::
  "ioc_env \<Rightarrow> real \<Rightarrow> ioc_engine_state \<Rightarrow> py_error option \<times> ioc_engine_state \<times> string list" where
  "update_iocs env now st =
     (if now - last_updated st < 3600 then (None, st, [])
      else
        let collected = fetch_feeds (http_get env) IOC_FEEDS {};
            requested = map snd IOC_FEEDS
        in if collected \<noteq> {}
           then
             (let st' = st\<lparr>iocs := collected, last_updated := now\<rparr>
              in if save_ok env
                 then (None, st'\<lparr>cache_file := Some (collected, now)\<rparr>, requested)
                 else (Some OSError, st', requested))
           else (None, st, requested))"

section \<open>response/firewall.py\<close>

text \<open>The effective values of \<open>AUTO_BLOCK\<close> and \<open>FEATURES\<close> in \<open>config.settings\<close>.\<close>

record settings =
  AUTO_BLOCK_ENABLED :: bool
  AUTO_BLOCK_REQUIRE_IOC :: bool
  EMAIL_ALERTS :: bool
  EMAIL_ALL_DETECTIONS :: bool

record block_record =
  b_blocked_at :: string
  b_reason :: string
  b_ioc_confirmed :: bool
  b_os :: string
  b_method :: string
  b_rule_name :: string

text \<open>
  The audit ledger is the content of \<open>BLOCKED_IPS_FILE\<close>: a dictionary from
  addresses to records, or \<open>None\<close> when the file cannot be read or parsed.  The
  controller's surroundings: its \<open>os_type\<close>, the text of the current UTC time,
  whether \<open>subprocess.Popen\<close> succeeds on a command, and what happens when
  \<open>_save_history\<close> writes the ledger.  \<open>Path.write_text\<close> opens the file for
  writing, which truncates it, and then writes the text: the write succeeds
  (\<open>Written\<close>), or opening raises and the file is as before (\<open>OpenFailed\<close>), or
  writing raises after the file was truncated (\<open>WriteFailed\<close>), which leaves an
  empty or partial file that no longer parses.
\<close>

datatype write_outcome = Written | OpenFailed | WriteFailed

type_synonym ledger = "(string \<times> block_record) list option"

record firewall_env =
  os_type :: string
  utcnow_iso :: string
  popen_ok :: "string list \<Rightarrow> bool"
  write_result :: write_outcome

definition load_history :: "ledger \<Rightarrow> (string \<times> block_record) list" where
  "load_history file = (case file of None \<Rightarrow> [] | Some history \<Rightarrow> history)"

definition is_private_ip :: "string \<Rightarrow> bool" where
  "is_private_ip ip =
     startswith ip
       [''127.'', ''10.'', ''192.168.'', ''172.16.'', ''172.17.'', ''172.18.'', ''172.19.'',
        ''172.2'', ''0.'']"

definition netsh_cmds :: "string \<Rightarrow> string \<Rightarrow> string list list" where
  "netsh_cmds ip rule_name =
     [[''netsh'', ''advfirewall'', ''firewall'', ''add'', ''rule'',
       ''name='' @ rule_name @ ''_IN'', ''dir=in'', ''action=block'', ''remoteip='' @ ip],
      [''netsh'', ''advfirewall'', ''firewall'', ''add'', ''rule'',
       ''name='' @ rule_name @ ''_OUT'', ''dir=out'', ''action=block'', ''remoteip='' @ ip]]"

text \<open>
  The loop of \<open>_block_windows\<close>: the commands spawned so far, and whether
  \<open>Popen\<close> raised (which ends the loop).
\<close>

fun spawn_all :: "(string list \<Rightarrow> bool) \<Rightarrow> string list list \<Rightarrow> string list list \<times> bool" where
  "spawn_all ok [] = ([], False)"
| "spawn_all ok (cmd # cmds) =
     (if ok cmd
      then (case spawn_all ok cmds of (spawned, raised) \<Rightarrow> (cmd # spawned, raised))
      else ([], True))"

definition block_windows :: "firewall_env \<Rightarrow> string \<Rightarrow> string \<Rightarrow> string list list \<times> bool" where
  "block_windows env ip rule_name = spawn_all (popen_ok env) (netsh_cmds ip rule_name)"

text \<open>
  \<open>block_ip\<close> returns its result, the ledger file after the call and the list of
  enforcement commands it spawned.
\<close>

definition write_audit ::
  "firewall_env \<Rightarrow> string \<Rightarrow> string \<Rightarrow> bool \<Rightarrow> string \<Rightarrow> string \<Rightarrow> ledger \<Rightarrow>
   string list list \<Rightarrow> bool \<times> ledger \<times> string list list" where
  "write_audit env ip reason ioc_confirmed method rule_name file spawned =
     (let history = load_history file;
          history = AList.update ip
            \<lparr>b_blocked_at = utcnow_iso env @ ''Z'', b_reason = reason,
             b_ioc_confirmed = ioc_confirmed, b_os = os_type env, b_method = method,
             b_rule_name = rule_name\<rparr> history
      in case write_result env of
           Written \<Rightarrow> (True, Some history, spawned)
         | OpenFailed \<Rightarrow> (False, file, spawned)
         | WriteFailed \<Rightarrow> (False, None, spawned))"

definition block_ip ::
  "settings \<Rightarrow> firewall_env \<Rightarrow> string \<Rightarrow> string \<Rightarrow> bool \<Rightarrow> ledger \<Rightarrow>
   bool \<times> ledger \<times> string list list" where
  "block_ip cfg env ip reason ioc_confirmed file =
     (if \<not> AUTO_BLOCK_ENABLED cfg then (False, file, [])
      else if AUTO_BLOCK_REQUIRE_IOC cfg \<and> \<not> ioc_confirmed then (False, file, [])
      else if ip = [] \<or> ip = ''UNKNOWN'' then (False, file, [])
      else if is_private_ip ip then (False, file, [])
      else if ip \<in> set (map fst (load_history file)) then (False, file, [])
      else
        let rule_name = ''SOC_BLOCK_'' @ ip
        in if os_type env = ''Windows''
           then (case block_windows env ip rule_name of
                   (spawned, raised) \<Rightarrow>
                     if raised then (False, file, spawned)
                     else write_audit env ip reason ioc_confirmed ''netsh'' rule_name file
                            spawned)
           else write_audit env ip reason ioc_confirmed ''audit-only'' rule_name file [])"

text \<open>A sequential execution: calls of \<open>block_ip\<close> one after the other on the same ledger.\<close>

fun block_ips ::
  "settings \<Rightarrow> (firewall_env \<times> string \<times> string \<times> bool) list \<Rightarrow> ledger \<Rightarrow> ledger" where
  "block_ips cfg [] file = file"
| "block_ips cfg ((env, ip, reason, ioc_confirmed) # calls) file =
     block_ips cfg calls (fst (snd (block_ip cfg env ip reason ioc_confirmed file)))"

section \<open>response/responder.py\<close>

text \<open>
  Datetimes are microseconds.  The orchestrator's state is its dedup table (a
  dictionary from \<open>(ip, rule, severity)\<close> to the time of handling) and the report
  latch.
\<close>

type_synonym incident_key = "string \<times> string \<times> string"

record response_engine =
  handled_incidents :: "(incident_key \<times> int) list"
  pdf_generated_for_run :: bool

text \<open>
  The calls the orchestrator makes to its collaborators, and the errors it logs.  A
  collaborator call may raise: the three flags say which ones do.
\<close>

datatype action =
    CallBlockIp string string bool
  | EmitIpBlocked
  | CallSendAlert detection
  | CallGenerate detection
  | LogError string

record collaborators =
  block_ip_raises :: bool
  send_alert_raises :: bool
  generate_raises :: bool

text \<open>
  \<open>_dedup_ttl\<close> is ten minutes.  A detection dictionary is falsy when it has no
  key at all: \<open>empty_detection\<close>.
\<close>

definition dedup_ttl :: int where
  "dedup_ttl = 10 * 60 * 1000000"

definition empty_detection :: detection where
  "empty_detection =
     \<lparr>d_rule = None, d_severity = None, d_ip = None, d_time = None, d_payload = None,
      d_raw = None, d_ioc_hit = None\<rparr>"

definition cleanup_old_incidents ::
  "int \<Rightarrow> (incident_key \<times> int) list \<Rightarrow> (incident_key \<times> int) list" where
  "cleanup_old_incidents now handled = filter (\<lambda>(key, ts). \<not> (now - ts > dedup_ttl)) handled"

text \<open>
  \<open>_handle_firewall\<close> and \<open>_handle_email\<close> return the calls they made and their
  result, \<open>None\<close> when they raise.
\<close>

definition handle_firewall ::
  "settings \<Rightarrow> collaborators \<Rightarrow> string \<Rightarrow> string \<Rightarrow> string \<Rightarrow> bool \<Rightarrow> action list \<times> bool option" where
  "handle_firewall cfg env severity ip rule ioc_hit =
     (if \<not> AUTO_BLOCK_ENABLED cfg then ([], Some False)
      else
        let should_block =
              (if AUTO_BLOCK_REQUIRE_IOC cfg then severity = ''Critical'' \<and> ioc_hit
               else severity = ''Critical'')
        in if should_block \<and> ip \<noteq> [] \<and> ip \<noteq> ''UNKNOWN''
           then ([CallBlockIp ip rule ioc_hit],
                 if block_ip_raises env then None else Some True)
           else ([], Some False))"

definition handle_email ::
  "settings \<Rightarrow> collaborators \<Rightarrow> string \<Rightarrow> detection \<Rightarrow> action list \<times> unit option" where
  "handle_email cfg env severity detection =
     (if \<not> EMAIL_ALERTS cfg then ([], Some ())
      else if EMAIL_ALL_DETECTIONS cfg \<or> severity \<in> set [''High'', ''Critical'']
      then ([CallSendAlert detection], if send_alert_raises env then None else Some ())
      else ([], Some ()))"

text \<open>
  The three steps of \<open>handle_detection\<close> that follow the deduplication block, each in
  its own \<open>try\<close>.
\<close>

definition response_steps ::
  "settings \<Rightarrow> collaborators \<Rightarrow> detection \<Rightarrow> string \<Rightarrow> string \<Rightarrow> string \<Rightarrow> bool \<Rightarrow>
   response_engine \<Rightarrow> response_engine \<times> action list" where
  "response_steps cfg env detection severity ip rule ioc_hit R =
     (let step1 =
            (case handle_firewall cfg env severity ip rule ioc_hit of
               (calls, Some blocked) \<Rightarrow> calls @ (if blocked then [EmitIpBlocked] else [])
             | (calls, None) \<Rightarrow> calls @ [LogError ''Firewall response failed'']);
          step2 =
            (case handle_email cfg env severity detection of
               (calls, Some _) \<Rightarrow> calls
             | (calls, None) \<Rightarrow> calls @ [LogError ''Email alert failed''])
      in if \<not> pdf_generated_for_run R
         then (if generate_raises env
               then (R, step1 @ step2 @ [CallGenerate detection, LogError ''PDF generation failed''])
               else (R\<lparr>pdf_generated_for_run := True\<rparr>, step1 @ step2 @ [CallGenerate detection]))
         else (R, step1 @ step2))"

definition incident_key_of :: "detection \<Rightarrow> incident_key" where
  "incident_key_of detection =
     (get_or (d_ip detection) ''UNKNOWN'', get_or (d_rule detection) ''Unknown Threat'',
      get_or (d_severity detection) ''Low'')"

definition handle_detection ::
  "settings \<Rightarrow> collaborators \<Rightarrow> int \<Rightarrow> detection \<Rightarrow> response_engine \<Rightarrow>
   response_engine \<times> action list" where
  "handle_detection cfg env now detection R =
     (if detection = empty_detection then (R, [])
      else
        let severity = get_or (d_severity detection) ''Low'';
            ip = get_or (d_ip detection) ''UNKNOWN'';
            rule = get_or (d_rule detection) ''Unknown Threat'';
            ioc_hit = (d_ioc_hit detection = Some True);
            incident_key = (ip, rule, severity);
            handled = cleanup_old_incidents now (handled_incidents R)
        in if incident_key \<in> set (map fst handled)
           then (R\<lparr>handled_incidents := handled\<rparr>, [])
           else response_steps cfg env detection severity ip rule ioc_hit
                  (R\<lparr>handled_incidents := AList.update incident_key now handled\<rparr>))"

section \<open>Example inputs\<close>

text \<open>Concrete configurations, states and inputs on which the model is run below.\<close>

definition policy_on :: settings where
  "policy_on =
     \<lparr>AUTO_BLOCK_ENABLED = True, AUTO_BLOCK_REQUIRE_IOC = True, EMAIL_ALERTS = True,
      EMAIL_ALL_DETECTIONS = False\<rparr>"

definition windows_env :: firewall_env where
  "windows_env =
     \<lparr>os_type = ''Windows'', utcnow_iso = ''2024-05-01T10:00:00'', popen_ok = (\<lambda>cmd. True),
      write_result = Written\<rparr>"

definition disk_full_env :: firewall_env where
  "disk_full_env =
     \<lparr>os_type = ''Windows'', utcnow_iso = ''2024-05-01T10:00:00'', popen_ok = (\<lambda>cmd. True),
      write_result = WriteFailed\<rparr>"

definition later_env :: firewall_env where
  "later_env =
     \<lparr>os_type = ''Windows'', utcnow_iso = ''2024-05-01T10:05:00'', popen_ok = (\<lambda>cmd. True),
      write_result = Written\<rparr>"

definition history0 :: "(string \<times> block_record) list" where
  "history0 =
     [(''8.8.8.8'',
       \<lparr>b_blocked_at = ''2024-04-30T09:00:00Z'', b_reason = ''SQL Injection'',
        b_ioc_confirmed = True, b_os = ''Windows'', b_method = ''netsh'',
        b_rule_name = ''SOC_BLOCK_8.8.8.8''\<rparr>)]"

definition eng0 :: detection_engine where
  "eng0 =
     \<lparr>ioc_engine = Some (\<lambda>ip. Some (ip = ''203.0.113.9'')),
      compiled_rules =
        [(''Failed Login'', contains ''failed login''),
         (''Sensitive File Access'', contains ''/etc/passwd'')]\<rparr>"

definition entry0 :: log_entry where
  "entry0 =
     blank_entry\<lparr>e_ip := Some ''203.0.113.9'',
                 e_normalized_request := Some ''post /login failed login''\<rparr>"

definition encoded_entry :: log_entry where
  "encoded_entry =
     blank_entry\<lparr>e_request := Some ''%25252541'', e_raw := Some ''GET /%25252541''\<rparr>"

definition long_entry :: log_entry where
  "long_entry =
     blank_entry\<lparr>e_request := Some (replicate 2001 CHR ''a''),
                 e_raw := Some (replicate 2001 CHR ''a'')\<rparr>"

definition detection0 :: detection where
  "detection0 =
     \<lparr>d_rule = Some ''SQL Injection'', d_severity = Some ''Critical'',
      d_ip = Some ''203.0.113.9'', d_time = Some ''2024-05-01T10:00:00'',
      d_payload = Some ''union select'', d_raw = Some ''GET /?q=union select'',
      d_ioc_hit = Some True\<rparr>"

definition engine0 :: response_engine where
  "engine0 = \<lparr>handled_incidents = [], pdf_generated_for_run = False\<rparr>"

definition all_ok :: collaborators where
  "all_ok = \<lparr>block_ip_raises = False, send_alert_raises = False, generate_raises = False\<rparr>"

definition all_fail :: collaborators where
  "all_fail = \<lparr>block_ip_raises = True, send_alert_raises = True, generate_raises = True\<rparr>"

definition message_entry :: log_entry where
  "message_entry =
     blank_entry\<lparr>e_ip := Some ''192.0.2.1'', e_message := Some ''cat /etc/passwd''\<rparr>"

definition raw_entry :: log_entry where
  "raw_entry =
     blank_entry\<lparr>e_ip := Some ''192.0.2.1'', e_request := Some ''GET /etc/passwd'',
                 e_raw := Some ''GET /etc/passwd''\<rparr>"

definition bare_entry :: log_entry where
  "bare_entry = blank_entry\<lparr>e_ip := Some ''203.0.113.9'', e_raw := Some ''-''\<rparr>"

definition failed_login :: detection where
  "failed_login =
     \<lparr>d_rule = Some ''Failed Login'', d_severity = Some ''Low'', d_ip = Some ''203.0.113.9'',
      d_time = Some ''2024-05-01T10:00:00'', d_payload = Some ''post /login 401'',
      d_raw = Some ''POST /login 401'', d_ioc_hit = Some False\<rparr>"

definition six_failed_logins :: "detection list" where
  "six_failed_logins = replicate 6 failed_login"

definition corr0 :: correlation_engine where
  "corr0 = \<lparr>time_window = 5 * 60 * 1000000\<rparr>"

definition timelib0 :: timelib where
  "timelib0 =
     \<lparr>utcnow = 63850154400000000,
      fromisoformat =
        (\<lambda>s. if s = ''2024-05-01T10:00:00'' then Some (Naive 63850154400000000)
             else if s = ''0001-01-01 00:00:00'' then Some (Naive 0)
             else None),
      strptime = (\<lambda>s. None)\<rparr>"

definition year_one_logins :: "detection list" where
  "year_one_logins = replicate 5 (failed_login\<lparr>d_time := Some ''0001-01-01 00:00:00''\<rparr>)"

definition ioc_state0 :: ioc_engine_state where
  "ioc_state0 = \<lparr>iocs = {}, last_updated = 0, cache_file = None\<rparr>"

definition feeds_down :: ioc_env where
  "feeds_down = \<lparr>http_get = (\<lambda>url. None), save_ok = True\<rparr>"

definition feeds_up :: ioc_env where
  "feeds_up =
     \<lparr>http_get = (\<lambda>url. Some [''# firehol_level1'', '' 198.51.100.7 '', [], ''203.0.113.9'']),
      save_ok = True\<rparr>"

section \<open>Predicates used in the statements\<close>

text \<open>A field is absent when its key is missing or holds the empty string.\<close>

definition absent :: "string option \<Rightarrow> bool" where
  "absent field = (field = None \<or> field = Some [])"

text \<open>
  A detection emitted by the rule loop carries the name of its rule, the reputation
  result, and the escalated severity of that rule.
\<close>

definition rule_detection :: "bool \<Rightarrow> string \<Rightarrow> detection \<Rightarrow> bool" where
  "rule_detection h name d \<longleftrightarrow>
     d_rule d = Some name \<and> d_ioc_hit d = Some h \<and>
     d_severity d = Some (escalate_severity (get_severity name) h)"

text \<open>The rule name of a detection contains \<open>Failed Login\<close>.\<close>

definition is_failed_login :: "detection \<Rightarrow> bool" where
  "is_failed_login e = contains ''Failed Login'' (get_or (d_rule e) [])"

text \<open>
  The start of the correlation window that ends at the event \<open>latest\<close>.  An event
  lies in that window when the start is a representable datetime and the comparison
  of \<open>_filter_time_window\<close> does not answer \<open>False\<close>.
\<close>

definition window_cutoff ::
  "correlation_engine \<Rightarrow> timelib \<Rightarrow> detection \<Rightarrow> py_error + pytime" where
  "window_cutoff C T latest = minus_delta (parse_time T (d_time latest)) (time_window C)"

definition in_window ::
  "correlation_engine \<Rightarrow> timelib \<Rightarrow> detection \<Rightarrow> detection \<Rightarrow> bool" where
  "in_window C T e latest =
     (case window_cutoff C T latest of
        Inl err \<Rightarrow> False
      | Inr cutoff \<Rightarrow> time_ge (parse_time T (d_time e)) cutoff \<noteq> Some False)"

section \<open>Properties of the detection engine\<close>

lemma severity_map_values:
  "map_of THREAT_SEVERITY_MAP k = Some v \<Longrightarrow> v \<in> set SEVERITY_LEVELS"
  by (drule map_of_SomeD) (auto simp: THREAT_SEVERITY_MAP_def SEVERITY_LEVELS_def)

lemma get_severity_level: "get_severity n \<in> set SEVERITY_LEVELS"
proof (cases "map_of THREAT_SEVERITY_MAP (strip n)")
  case None
  then show ?thesis by (simp add: get_severity_def SEVERITY_LEVELS_def)
next
  case (Some v)
  then show ?thesis using severity_map_values [OF Some] by (simp add: get_severity_def)
qed

lemma escalate_severity_level:
  "s \<in> set SEVERITY_LEVELS \<Longrightarrow>
   escalate_severity s h =
     (if h then (if s = ''Low'' then ''Medium'' else if s = ''Medium'' then ''High'' else ''Critical'')
      else s)"
  by (auto simp: escalate_severity_def SEVERITY_LEVELS_def)

lemma get_severity_failed_login: "get_severity ''Failed Login'' = ''Low''"
  by (simp add: get_severity_def strip_def is_space_def THREAT_SEVERITY_MAP_def)

lemma match_rules_sound:
  "\<forall>d \<in> set acc. \<exists>name. rule_detection h name d \<Longrightarrow>
   \<forall>d \<in> set (match_rules rules seen payload ip ts raw h acc). \<exists>name. rule_detection h name d"
  by (induction rules seen payload ip ts raw h acc rule: match_rules.induct)
     (auto simp: rule_detection_def)

lemma match_rules_complete:
  "\<forall>n \<in> set seen. \<exists>d \<in> set acc. rule_detection h n d \<Longrightarrow>
   ((name, search) \<in> set rules \<and> search payload) \<or> name \<in> set seen \<Longrightarrow>
   \<exists>d \<in> set (match_rules rules seen payload ip ts raw h acc). rule_detection h name d"
proof (induction rules seen payload ip ts raw h acc rule: match_rules.induct)
  case (1 seen_rules payload ip timestamp raw ioc_hit detections)
  then show ?case by auto
next
  case (2 rule_name search' rules seen_rules payload ip timestamp raw ioc_hit detections)
  show ?case
  proof (cases "rule_name \<in> set seen_rules")
    case True
    then show ?thesis using 2 by auto
  next
    case False
    note unseen = False
    show ?thesis
    proof (cases "search' payload")
      case True
      let ?d = "\<lparr>d_rule = Some rule_name,
                d_severity = Some (escalate_severity (get_severity rule_name) ioc_hit),
                d_ip = Some ip, d_time = Some timestamp, d_payload = Some payload,
                d_raw = Some raw, d_ioc_hit = Some ioc_hit\<rparr>"
      have inv: "\<forall>n \<in> set (rule_name # seen_rules).
                   \<exists>d \<in> set (detections @ [?d]). rule_detection ioc_hit n d"
        using "2.prems"(1) by (auto simp: rule_detection_def)
      have pre: "((name, search) \<in> set rules \<and> search payload) \<or>
                 name \<in> set (rule_name # seen_rules)"
        using "2.prems"(2) by auto
      show ?thesis using "2.IH"(2) [OF unseen True inv pre] unseen True by simp
    next
      case False
      have pre: "((name, search) \<in> set rules \<and> search payload) \<or> name \<in> set seen_rules"
        using "2.prems"(2) False by auto
      show ?thesis using "2.IH"(3) [OF unseen False "2.prems"(1) pre] unseen False by simp
    qed
  qed
qed

text \<open>
  Claim C7.  Every detection that \<open>analyze_entry\<close> emits is either the synthetic
  reputation-only detection, or comes from a rule: then its base severity
  \<open>get_severity name\<close> is one of the four levels, and the emitted severity is the
  base severity when the reputation check is not a hit and exactly one level above it
  when it is (Low to Medium, Medium to High, High to Critical, Critical stays
  Critical).  Conversely every compiled rule that matches the payload has such a
  detection in the output.
\<close>

theorem emitted_severity_one_level:
  "(\<forall>d \<in> set (analyze_entry eng entry).
      d = ioc_only_detection (get_or (e_ip entry) ''UNKNOWN'') (get_or (e_time entry) ''UNKNOWN'')
            (entry_raw entry) \<or>
      (\<exists>name. d_rule d = Some name \<and> get_severity name \<in> set SEVERITY_LEVELS \<and>
         d_ioc_hit d = Some (ioc_check eng (get_or (e_ip entry) ''UNKNOWN'')) \<and>
         d_severity d =
           Some (if ioc_check eng (get_or (e_ip entry) ''UNKNOWN'')
                 then (if get_severity name = ''Low'' then ''Medium''
                       else if get_severity name = ''Medium'' then ''High'' else ''Critical'')
                 else get_severity name))) \<and>
   (\<forall>(name, search) \<in> set (compiled_rules eng).
      search (entry_payload entry) \<longrightarrow>
      (\<exists>d \<in> set (analyze_entry eng entry).
         d_rule d = Some name \<and>
         d_severity d =
           Some (if ioc_check eng (get_or (e_ip entry) ''UNKNOWN'')
                 then (if get_severity name = ''Low'' then ''Medium''
                       else if get_severity name = ''Medium'' then ''High'' else ''Critical'')
                 else get_severity name)))"
proof -
  define ip where "ip = get_or (e_ip entry) ''UNKNOWN''"
  define h where "h = ioc_check eng ip"
  define ds where "ds = match_rules (compiled_rules eng) [] (entry_payload entry) ip
      (get_or (e_time entry) ''UNKNOWN'') (entry_raw entry) h []"
  define synth where
    "synth = ioc_only_detection ip (get_or (e_time entry) ''UNKNOWN'') (entry_raw entry)"
  define up where "up = (\<lambda>name. if h
                 then (if get_severity name = ''Low'' then ''Medium''
                       else if get_severity name = ''Medium'' then ''High'' else ''Critical'')
                 else get_severity name)"
  have res: "analyze_entry eng entry = (if h \<and> ds = [] then ds @ [synth] else ds)"
    unfolding analyze_entry_def Let_def ds_def h_def ip_def synth_def by (rule refl)
  have sound: "\<forall>d \<in> set ds. \<exists>name. rule_detection h name d"
    unfolding ds_def by (rule match_rules_sound) simp
  have esc: "escalate_severity (get_severity name) h = up name" for name
    unfolding up_def by (rule escalate_severity_level [OF get_severity_level])
  have part1: "\<forall>d \<in> set (analyze_entry eng entry). d = synth \<or>
      (\<exists>name. d_rule d = Some name \<and> get_severity name \<in> set SEVERITY_LEVELS \<and>
         d_ioc_hit d = Some h \<and> d_severity d = Some (up name))"
  proof
    fix d assume d: "d \<in> set (analyze_entry eng entry)"
    show "d = synth \<or>
      (\<exists>name. d_rule d = Some name \<and> get_severity name \<in> set SEVERITY_LEVELS \<and>
         d_ioc_hit d = Some h \<and> d_severity d = Some (up name))"
    proof (cases "h \<and> ds = []")
      case True
      then have "analyze_entry eng entry = [synth]" using res by simp
      then show ?thesis using d by simp
    next
      case False
      then have "d \<in> set ds" using d res by (auto split: if_splits)
      then obtain name where "rule_detection h name d" using sound by blast
      then have "d_rule d = Some name \<and> get_severity name \<in> set SEVERITY_LEVELS \<and>
         d_ioc_hit d = Some h \<and> d_severity d = Some (up name)"
        unfolding rule_detection_def using esc [of name] get_severity_level [of name] by simp
      then show ?thesis by blast
    qed
  qed
  have part2: "\<forall>(name, search) \<in> set (compiled_rules eng).
      search (entry_payload entry) \<longrightarrow>
      (\<exists>d \<in> set (analyze_entry eng entry). d_rule d = Some name \<and> d_severity d = Some (up name))"
  proof (clarify)
    fix name search
    assume r: "(name, search) \<in> set (compiled_rules eng)" and m: "search (entry_payload entry)"
    have "\<exists>d \<in> set ds. rule_detection h name d"
      unfolding ds_def by (rule match_rules_complete) (use r m in auto)
    then obtain d where d: "d \<in> set ds" "rule_detection h name d" by blast
    then have ne: "ds \<noteq> []" by auto
    have "d \<in> set (analyze_entry eng entry)" using d(1) ne res by (auto split: if_splits)
    moreover have "d_rule d = Some name \<and> d_severity d = Some (up name)"
      using d(2) esc [of name] unfolding rule_detection_def by simp
    ultimately show "\<exists>d \<in> set (analyze_entry eng entry).
         d_rule d = Some name \<and> d_severity d = Some (up name)" by blast
  qed
  show ?thesis using part1 part2 unfolding up_def synth_def h_def ip_def by blast
qed

theorem emitted_severity_one_level_witness:
  "(''Failed Login'', contains ''failed login'') \<in> set (compiled_rules eng0) \<and>
   contains ''failed login'' (entry_payload entry0) \<and>
   ioc_check eng0 (get_or (e_ip entry0) ''UNKNOWN'') \<and>
   get_severity ''Failed Login'' = ''Low'' \<and>
   (\<exists>d \<in> set (analyze_entry eng0 entry0).
      d_rule d = Some ''Failed Login'' \<and> d_severity d = Some ''Medium'')"
proof -
  have m: "(''Failed Login'', contains ''failed login'') \<in> set (compiled_rules eng0)"
    by (simp add: eng0_def)
  have p: "contains ''failed login'' (entry_payload entry0)"
    by code_simp
  have h: "ioc_check eng0 (get_or (e_ip entry0) ''UNKNOWN'')"
    by code_simp
  from emitted_severity_one_level [of eng0 entry0]
  have "\<forall>(name, search) \<in> set (compiled_rules eng0).
      search (entry_payload entry0) \<longrightarrow>
      (\<exists>d \<in> set (analyze_entry eng0 entry0).
         d_rule d = Some name \<and>
         d_severity d =
           Some (if ioc_check eng0 (get_or (e_ip entry0) ''UNKNOWN'')
                 then (if get_severity name = ''Low'' then ''Medium''
                       else if get_severity name = ''Medium'' then ''High'' else ''Critical'')
                 else get_severity name))"
    by (rule conjunct2)
  from bspec [OF this m] p h
  have "\<exists>d \<in> set (analyze_entry eng0 entry0).
      d_rule d = Some ''Failed Login'' \<and> d_severity d = Some ''Medium''"
    by (simp add: get_severity_failed_login)
  then show ?thesis using m p h get_severity_failed_login by blast
qed

lemma match_rules_eq:
  "distinct (map fst rules) \<Longrightarrow> set seen \<inter> fst ` set rules = {} \<Longrightarrow>
   match_rules rules seen payload ip ts raw h acc =
     acc @ map (\<lambda>(name, search).
                 \<lparr>d_rule = Some name,
                  d_severity = Some (escalate_severity (get_severity name) h),
                  d_ip = Some ip, d_time = Some ts, d_payload = Some payload,
                  d_raw = Some raw, d_ioc_hit = Some h\<rparr>)
             (filter (\<lambda>(name, search). search payload) rules)"
proof (induction rules arbitrary: seen acc)
  case Nil
  then show ?case by simp
next
  case (Cons r rules)
  obtain n s where r: "r = (n, s)" by (cases r) auto
  have unseen: "n \<notin> set seen" using Cons.prems(2) r by auto
  have d: "distinct (map fst rules)" using Cons.prems(1) by simp
  have fresh: "n \<notin> fst ` set rules" using Cons.prems(1) r by auto
  have disj: "set seen \<inter> fst ` set rules = {}" using Cons.prems(2) by auto
  show ?case
  proof (cases "s payload")
    case True
    have "set (n # seen) \<inter> fst ` set rules = {}" using disj fresh by auto
    from Cons.IH [OF d this] show ?thesis using r unseen True by simp
  next
    case False
    from Cons.IH [OF d disj] show ?thesis using r unseen False by simp
  qed
qed

lemma entry_payload_cases:
  "(e_normalized_request entry = Some payload \<and> payload \<noteq> [] \<longrightarrow> entry_payload entry = payload) \<and>
   (absent (e_normalized_request entry) \<and> e_message entry = Some payload \<and> payload \<noteq> [] \<longrightarrow>
      entry_payload entry = payload) \<and>
   (absent (e_normalized_request entry) \<and> absent (e_message entry) \<longrightarrow> entry_payload entry = [])"
  by (auto simp: entry_payload_def absent_def)

lemma analyze_entry_eq:
  assumes "distinct (map fst (compiled_rules eng))"
  shows "analyze_entry eng entry =
     (if ioc_check eng (get_or (e_ip entry) ''UNKNOWN'') \<and>
         filter (\<lambda>(name, search). search (entry_payload entry)) (compiled_rules eng) = []
      then [\<lparr>d_rule = Some ''Threat Intelligence Match'', d_severity = Some ''Critical'',
             d_ip = Some (get_or (e_ip entry) ''UNKNOWN''),
             d_time = Some (get_or (e_time entry) ''UNKNOWN''),
             d_payload = Some ''N/A (IP Reputation Match)'', d_raw = Some (entry_raw entry),
             d_ioc_hit = Some True\<rparr>]
      else map (\<lambda>(name, search).
                 \<lparr>d_rule = Some name,
                  d_severity =
                    Some (escalate_severity (get_severity name)
                            (ioc_check eng (get_or (e_ip entry) ''UNKNOWN''))),
                  d_ip = Some (get_or (e_ip entry) ''UNKNOWN''),
                  d_time = Some (get_or (e_time entry) ''UNKNOWN''),
                  d_payload = Some (entry_payload entry), d_raw = Some (entry_raw entry),
                  d_ioc_hit = Some (ioc_check eng (get_or (e_ip entry) ''UNKNOWN''))\<rparr>)
             (filter (\<lambda>(name, search). search (entry_payload entry)) (compiled_rules eng)))"
proof -
  define ip where "ip = get_or (e_ip entry) ''UNKNOWN''"
  define h where "h = ioc_check eng ip"
  define hits where
    "hits = filter (\<lambda>(name, search). search (entry_payload entry)) (compiled_rules eng)"
  define mk where "mk = (\<lambda>(name, search :: string \<Rightarrow> bool).
                 \<lparr>d_rule = Some name,
                  d_severity = Some (escalate_severity (get_severity name) h),
                  d_ip = Some ip, d_time = Some (get_or (e_time entry) ''UNKNOWN''),
                  d_payload = Some (entry_payload entry), d_raw = Some (entry_raw entry),
                  d_ioc_hit = Some h\<rparr>)"
  define ds where "ds = match_rules (compiled_rules eng) [] (entry_payload entry) ip
      (get_or (e_time entry) ''UNKNOWN'') (entry_raw entry) h []"
  define synth where
    "synth = ioc_only_detection ip (get_or (e_time entry) ''UNKNOWN'') (entry_raw entry)"
  have res: "analyze_entry eng entry = (if h \<and> ds = [] then ds @ [synth] else ds)"
    unfolding analyze_entry_def Let_def ds_def h_def ip_def synth_def by (rule refl)
  have ds: "ds = map mk hits"
    unfolding ds_def mk_def hits_def using match_rules_eq [OF assms, of "[]"] by simp
  have e: "(ds = []) = (hits = [])" using ds by simp
  have "analyze_entry eng entry = (if h \<and> hits = [] then [synth] else map mk hits)"
  proof (cases "h \<and> hits = []")
    case True
    then show ?thesis using res ds by simp
  next
    case False
    then have "\<not> (h \<and> ds = [])" using e by simp
    then have "analyze_entry eng entry = ds" using res by (simp split: if_splits)
    then show ?thesis using False ds by (simp split: if_splits)
  qed
  then show ?thesis
    unfolding h_def ip_def hits_def mk_def synth_def ioc_only_detection_def .
qed

text \<open>
  Claim C8, as amended.  The text matched against the rules is the normalized request
  when the entry has a non-empty one, otherwise the entry's \<open>message\<close> when that is
  non-empty, and otherwise the empty text; the \<open>raw\<close> line is not matched.  Matching
  is never skipped: every compiled rule (their names are distinct, being the keys of a
  dictionary) is searched on that text, and the rules whose pattern matches give, in
  their order, one detection each, with that text as payload.  The reputation check
  on the source address is made in every case; when it hits and no rule matched, the
  result is exactly the synthetic detection: rule ``Threat Intelligence Match'',
  severity Critical.
\<close>

theorem analyze_entry_matched_text:
  assumes "distinct (map fst (compiled_rules eng))"
  shows
  "(e_normalized_request entry = Some payload \<and> payload \<noteq> [] \<longrightarrow> entry_payload entry = payload) \<and>
   (absent (e_normalized_request entry) \<and> e_message entry = Some payload \<and> payload \<noteq> [] \<longrightarrow>
      entry_payload entry = payload) \<and>
   (absent (e_normalized_request entry) \<and> absent (e_message entry) \<longrightarrow> entry_payload entry = []) \<and>
   analyze_entry eng entry =
     (if ioc_check eng (get_or (e_ip entry) ''UNKNOWN'') \<and>
         filter (\<lambda>(name, search). search (entry_payload entry)) (compiled_rules eng) = []
      then [\<lparr>d_rule = Some ''Threat Intelligence Match'', d_severity = Some ''Critical'',
             d_ip = Some (get_or (e_ip entry) ''UNKNOWN''),
             d_time = Some (get_or (e_time entry) ''UNKNOWN''),
             d_payload = Some ''N/A (IP Reputation Match)'', d_raw = Some (entry_raw entry),
             d_ioc_hit = Some True\<rparr>]
      else map (\<lambda>(name, search).
                 \<lparr>d_rule = Some name,
                  d_severity =
                    Some (escalate_severity (get_severity name)
                            (ioc_check eng (get_or (e_ip entry) ''UNKNOWN''))),
                  d_ip = Some (get_or (e_ip entry) ''UNKNOWN''),
                  d_time = Some (get_or (e_time entry) ''UNKNOWN''),
                  d_payload = Some (entry_payload entry), d_raw = Some (entry_raw entry),
                  d_ioc_hit = Some (ioc_check eng (get_or (e_ip entry) ''UNKNOWN''))\<rparr>)
             (filter (\<lambda>(name, search). search (entry_payload entry)) (compiled_rules eng)))"
  using entry_payload_cases [of entry payload] analyze_entry_eq [OF assms, of entry]
  by (intro conjI) (erule conjunct1, erule conjunct2 [THEN conjunct1],
      erule conjunct2 [THEN conjunct2], assumption)

theorem analyze_entry_matched_text_witness:
  "distinct (map fst (compiled_rules eng0)) \<and>
   e_normalized_request entry0 = Some ''post /login failed login'' \<and>
   entry_payload entry0 = ''post /login failed login'' \<and>
   absent (e_normalized_request message_entry) \<and>
   e_message message_entry = Some ''cat /etc/passwd'' \<and>
   entry_payload message_entry = ''cat /etc/passwd'' \<and>
   absent (e_normalized_request bare_entry) \<and> absent (e_message bare_entry) \<and>
   entry_payload bare_entry = [] \<and>
   ioc_check eng0 (get_or (e_ip bare_entry) ''UNKNOWN'') \<and>
   analyze_entry eng0 bare_entry =
     [\<lparr>d_rule = Some ''Threat Intelligence Match'', d_severity = Some ''Critical'',
       d_ip = Some ''203.0.113.9'', d_time = Some ''UNKNOWN'',
       d_payload = Some ''N/A (IP Reputation Match)'', d_raw = Some ''-'',
       d_ioc_hit = Some True\<rparr>]"
proof -
  have d: "distinct (map fst (compiled_rules eng0))"
    by (simp add: eng0_def)
  have r0: "e_normalized_request entry0 = Some ''post /login failed login''"
    by (simp add: entry0_def blank_entry_def)
  have p0: "entry_payload entry0 = ''post /login failed login''"
    using analyze_entry_matched_text [OF d, of entry0 "''post /login failed login''"] r0
    by simp
  have a1: "absent (e_normalized_request message_entry)"
    by (simp add: absent_def message_entry_def blank_entry_def)
  have m1: "e_message message_entry = Some ''cat /etc/passwd''"
    by (simp add: message_entry_def blank_entry_def)
  have p1: "entry_payload message_entry = ''cat /etc/passwd''"
    using analyze_entry_matched_text [OF d, of message_entry "''cat /etc/passwd''"] a1 m1
    by simp
  have a2: "absent (e_normalized_request bare_entry)" "absent (e_message bare_entry)"
    by (simp_all add: absent_def bare_entry_def blank_entry_def)
  have p2: "entry_payload bare_entry = []"
    using analyze_entry_matched_text [OF d, of bare_entry "[]"] a2 by blast
  have n: "filter (\<lambda>(name, search). search []) (compiled_rules eng0) = []"
    by (simp add: eng0_def contains_def)
  have h: "ioc_check eng0 (get_or (e_ip bare_entry) ''UNKNOWN'')"
    by (simp add: ioc_check_def eng0_def bare_entry_def blank_entry_def)
  have f: "get_or (e_ip bare_entry) ''UNKNOWN'' = ''203.0.113.9''"
    "get_or (e_time bare_entry) ''UNKNOWN'' = ''UNKNOWN''" "entry_raw bare_entry = ''-''"
    by (simp_all add: bare_entry_def blank_entry_def entry_raw_def)
  have "analyze_entry eng0 bare_entry =
     [\<lparr>d_rule = Some ''Threat Intelligence Match'', d_severity = Some ''Critical'',
       d_ip = Some ''203.0.113.9'', d_time = Some ''UNKNOWN'',
       d_payload = Some ''N/A (IP Reputation Match)'', d_raw = Some ''-'',
       d_ioc_hit = Some True\<rparr>]"
    using analyze_entry_matched_text [OF d, of bare_entry "[]"] p2 n h f by simp
  then show ?thesis using d r0 p0 a1 m1 p1 a2 p2 h by blast
qed

text \<open>
  A parsed entry that was not normalized carries its line under \<open>raw\<close> and has no
  \<open>message\<close>.  Its raw text contains \<open>/etc/passwd\<close>, which the rule ``Sensitive
  File Access'' matches, yet nothing is detected: the text that is searched is empty.
\<close>

theorem raw_line_not_matched:
  "e_normalized_request raw_entry = None \<and> e_raw raw_entry = Some ''GET /etc/passwd'' \<and>
   contains ''/etc/passwd'' ''GET /etc/passwd'' \<and>
   analyze_entry eng0 raw_entry = []"
  by code_simp

section \<open>Properties of the firewall controller\<close>

lemma write_audit_cases:
  "write_audit env ip reason ioc m rn (Some h) sp = (r, f, a) \<Longrightarrow>
   write_result env \<noteq> WriteFailed \<Longrightarrow>
   f = Some h \<or>
   f = Some (AList.update ip
         \<lparr>b_blocked_at = utcnow_iso env @ ''Z'', b_reason = reason, b_ioc_confirmed = ioc,
          b_os = os_type env, b_method = m, b_rule_name = rn\<rparr> h)"
  by (auto simp: write_audit_def load_history_def Let_def split: write_outcome.splits)

lemma block_ip_ledger_cases:
  assumes "block_ip cfg env ip reason ioc (Some h) = (r, f, a)"
    and "write_result env \<noteq> WriteFailed"
  shows "f = Some h \<or> (ip \<notin> set (map fst h) \<and> (\<exists>v. f = Some (AList.update ip v h)))"
  using assms
  by (auto simp: block_ip_def load_history_def Let_def split: if_splits prod.splits
      dest: write_audit_cases)

lemma block_ip_present:
  "ip \<in> set (map fst h) \<Longrightarrow> block_ip cfg env ip reason ioc (Some h) = (False, Some h, [])"
  by (simp add: block_ip_def load_history_def)

lemma block_ip_preserves:
  assumes "block_ip cfg env ip reason ioc (Some h) = (r, f, a)"
    and "write_result env \<noteq> WriteFailed"
  shows "\<exists>h'. f = Some h' \<and> (distinct (map fst h) \<longrightarrow> distinct (map fst h')) \<and>
           (\<forall>k \<in> set (map fst h). map_of h' k = map_of h k) \<and>
           set (map fst h) \<subseteq> set (map fst h')"
proof -
  from block_ip_ledger_cases [OF assms]
  show ?thesis
  proof
    assume "f = Some h"
    then show ?thesis by simp
  next
    assume "ip \<notin> set (map fst h) \<and> (\<exists>v. f = Some (AList.update ip v h))"
    then obtain v where n: "ip \<notin> set (map fst h)" and f: "f = Some (AList.update ip v h)"
      by blast
    show ?thesis using n f
      by (auto simp: distinct_update update_conv' dom_update image_iff)
  qed
qed

text \<open>
  As long as no ledger write fails after truncating the file, a sequential execution
  keeps every entry the ledger had and keeps its keys distinct.
\<close>

lemma block_ips_preserves:
  assumes "\<forall>c \<in> set calls. write_result (fst c) \<noteq> WriteFailed"
  shows "\<exists>h'. block_ips cfg calls (Some h) = Some h' \<and>
         (distinct (map fst h) \<longrightarrow> distinct (map fst h')) \<and>
         (\<forall>k \<in> set (map fst h). map_of h' k = map_of h k) \<and>
         set (map fst h) \<subseteq> set (map fst h')"
  using assms
proof (induction calls arbitrary: h)
  case Nil
  then show ?case by simp
next
  case (Cons c calls)
  obtain env ip reason ioc where c: "c = (env, ip, reason, ioc)"
    by (cases c) auto
  have w: "write_result env \<noteq> WriteFailed"
    using Cons.prems c by simp
  have rest: "\<forall>c \<in> set calls. write_result (fst c) \<noteq> WriteFailed"
    using Cons.prems by simp
  obtain r f a where b: "block_ip cfg env ip reason ioc (Some h) = (r, f, a)"
    by (cases "block_ip cfg env ip reason ioc (Some h)") auto
  from block_ip_preserves [OF b w] obtain h1 where h1: "f = Some h1"
     "distinct (map fst h) \<longrightarrow> distinct (map fst h1)"
     "\<forall>k \<in> set (map fst h). map_of h1 k = map_of h k"
     "set (map fst h) \<subseteq> set (map fst h1)"
    by blast
  from Cons.IH [OF rest, of h1] obtain h2 where h2: "block_ips cfg calls (Some h1) = Some h2"
    "distinct (map fst h1) \<longrightarrow> distinct (map fst h2)"
    "\<forall>k \<in> set (map fst h1). map_of h2 k = map_of h1 k"
    "set (map fst h1) \<subseteq> set (map fst h2)"
    by blast
  have "block_ips cfg (c # calls) (Some h) = Some h2"
    using c b h1(1) h2(1) by simp
  moreover have "distinct (map fst h) \<longrightarrow> distinct (map fst h2)"
    using h1(2) h2(2) by blast
  moreover have "\<forall>k \<in> set (map fst h). map_of h2 k = map_of h k"
  proof
    fix k assume k: "k \<in> set (map fst h)"
    then have "k \<in> set (map fst h1)" using h1(4) by blast
    then have "map_of h2 k = map_of h1 k" using h2(3) by blast
    also have "\<dots> = map_of h k" using h1(3) k by blast
    finally show "map_of h2 k = map_of h k" .
  qed
  moreover have "set (map fst h) \<subseteq> set (map fst h2)"
    using h1(4) h2(4) by blast
  ultimately show ?case by blast
qed

text \<open>
  The guard itself is sound: an address that \<open>_is_private_ip\<close> recognises is
  never blocked, whatever the policy.
\<close>

lemma block_ip_guarded_prefixes:
  "is_private_ip ip \<Longrightarrow> block_ip cfg env ip reason ioc file = (False, file, [])"
  by (simp add: block_ip_def)

lemma is_private_ip_examples:
  "is_private_ip ''127.0.0.1'' \<and> is_private_ip ''10.1.2.3'' \<and> is_private_ip ''192.168.1.1'' \<and>
   is_private_ip ''172.16.0.1'' \<and> is_private_ip ''172.29.255.254'' \<and>
   \<not> is_private_ip ''172.30.0.1'' \<and> \<not> is_private_ip ''172.31.0.1''"
  by (simp add: is_private_ip_def startswith_def)

text \<open>
  Claim C1.  The address \<open>172.31.0.1\<close> lies in the private range 172.16.0.0/12, but
  none of the prefixes of \<open>_is_private_ip\<close> matches it (the list stops at
  \<open>172.2\<close>).  With auto-blocking enabled and the reputation hit confirmed,
  \<open>block_ip\<close> on Windows returns \<open>True\<close>, spawns the two \<open>netsh\<close> block
  commands and writes a ledger entry for that address.
\<close>

theorem block_ip_private_172_31_blocked:
  "block_ip policy_on windows_env ''172.31.0.1'' ''SQL Injection'' True (Some []) =
     (True,
      Some [(''172.31.0.1'',
             \<lparr>b_blocked_at = ''2024-05-01T10:00:00Z'', b_reason = ''SQL Injection'',
              b_ioc_confirmed = True, b_os = ''Windows'', b_method = ''netsh'',
              b_rule_name = ''SOC_BLOCK_172.31.0.1''\<rparr>)],
      [[''netsh'', ''advfirewall'', ''firewall'', ''add'', ''rule'',
        ''name=SOC_BLOCK_172.31.0.1_IN'', ''dir=in'', ''action=block'',
        ''remoteip=172.31.0.1''],
       [''netsh'', ''advfirewall'', ''firewall'', ''add'', ''rule'',
        ''name=SOC_BLOCK_172.31.0.1_OUT'', ''dir=out'', ''action=block'',
        ''remoteip=172.31.0.1'']])"
  by (simp add: block_ip_def policy_on_def windows_env_def is_private_ip_def startswith_def
      load_history_def block_windows_def netsh_cmds_def write_audit_def)

text \<open>
  Claim C3.  A call for an address that is a key of the ledger returns \<open>False\<close>,
  spawns nothing and leaves the ledger as it is (\<open>block_ip_present\<close>), and entries
  survive as long as every ledger write completes (\<open>block_ips_preserves\<close>).  But
  \<open>_save_history\<close> writes the ledger in place, where \<open>_save_cache\<close> of the
  reputation engine writes a temporary file and renames it.  Take a ledger with an
  entry for \<open>8.8.8.8\<close>.  A call for \<open>203.0.113.9\<close> whose ledger write fails after
  the file was truncated returns \<open>False\<close> and leaves no readable ledger.  The next
  call for \<open>8.8.8.8\<close> then finds an empty history: it returns \<open>True\<close>, spawns the
  two block commands for that address a second time, and writes a new entry for it in
  place of the one the ledger held.
\<close>

theorem ledger_lost_on_failed_write:
  "block_ip policy_on disk_full_env ''203.0.113.9'' ''SQL Injection'' True (Some history0) =
     (False, None, netsh_cmds ''203.0.113.9'' ''SOC_BLOCK_203.0.113.9'') \<and>
   block_ip policy_on later_env ''8.8.8.8'' ''XSS'' True None =
     (True,
      Some [(''8.8.8.8'',
             \<lparr>b_blocked_at = ''2024-05-01T10:05:00Z'', b_reason = ''XSS'',
              b_ioc_confirmed = True, b_os = ''Windows'', b_method = ''netsh'',
              b_rule_name = ''SOC_BLOCK_8.8.8.8''\<rparr>)],
      netsh_cmds ''8.8.8.8'' ''SOC_BLOCK_8.8.8.8'') \<and>
   map_of history0 ''8.8.8.8'' =
     Some \<lparr>b_blocked_at = ''2024-04-30T09:00:00Z'', b_reason = ''SQL Injection'',
           b_ioc_confirmed = True, b_os = ''Windows'', b_method = ''netsh'',
           b_rule_name = ''SOC_BLOCK_8.8.8.8''\<rparr>"
  by (simp add: block_ip_def policy_on_def disk_full_env_def later_env_def history0_def
      is_private_ip_def startswith_def load_history_def block_windows_def netsh_cmds_def
      write_audit_def)

section \<open>Properties of the normalizer\<close>

lemma half_len: "HALF_LEN = 1000"
  by (simp add: HALF_LEN_def MAX_LEN_def)

lemma first_last_code:
  "first_last_1000 t = take HALF_LEN t @ ''...'' @ drop (length t - HALF_LEN) t"
  unfolding half_len first_last_1000_def by (simp add: rev_take)

lemma guard_length:
  "length (if length t > 2000 then first_last_1000 t else t) \<le> 2003"
  by (simp add: first_last_1000_def)

lemma py_unquote_plain: "CHR ''%'' \<notin> set s \<Longrightarrow> py_unquote s = s"
  by (induction s rule: py_unquote.induct) auto

lemma decode_plain:
  assumes "CHR ''%'' \<notin> set s" "CHR ''+'' \<notin> set s" "CHR ''&'' \<notin> set s"
  shows "recursive_decode py_lib s 3 = s"
proof -
  have "map (\<lambda>c. if c = CHR ''+'' then CHR '' '' else c) s = s"
    using assms(2) by (induction s) auto
  then have 1: "py_unquote_plus s = s"
    using assms(1) by (simp add: py_unquote_plus_def py_unquote_plain)
  have 2: "py_html_unescape s = s"
    using assms by (simp add: py_html_unescape_def)
  show ?thesis using 1 2
    by (simp add: recursive_decode_def py_lib_def numeral_3_eq_3)
qed

lemma decoded_text_long:
  "decoded_text py_lib (Some (replicate 2001 CHR ''a'')) = replicate 2001 CHR ''a''"
proof -
  have d: "recursive_decode py_lib (replicate 2001 CHR ''a'') 3 = replicate 2001 CHR ''a''"
    by (rule decode_plain) auto
  have p: "py_isprintable CHR ''a''"
    by (simp add: py_isprintable_def)
  have l: "py_lower_char CHR ''a'' = CHR ''a''"
    by (simp add: py_lower_char_def)
  have ne: "replicate 2001 CHR ''a'' \<noteq> []"
    by simp
  show ?thesis using d p l ne
    by (simp add: decoded_text_def strip_control_chars_def py_lib_def)
qed

lemma normalized_fields:
  "e_normalized_request (normalize_log_entry L entry) =
     Some (if length (decoded_text L (e_request entry)) > 2000
           then first_last_1000 (decoded_text L (e_request entry))
           else decoded_text L (e_request entry)) \<and>
   e_normalized_raw (normalize_log_entry L entry) =
     Some (if length (decoded_text L (e_raw entry)) > 2000
           then first_last_1000 (decoded_text L (e_raw entry))
           else decoded_text L (e_raw entry))"
  unfolding first_last_code
  by (simp add: normalize_log_entry_def Let_def decoded_text_def MAX_LEN_def)

text \<open>
  Claim C4, as amended.  \<open>normalize_log_entry\<close> applied to its own output returns
  that output: the two normalized fields are computed again from \<open>request\<close> and
  \<open>raw\<close>, which normalization leaves as they are.  (The normalized text itself need
  not be a fixed point of the pipeline, see the counterexample.)
\<close>

theorem normalize_log_entry_idempotent:
  "normalize_log_entry L (normalize_log_entry L entry) = normalize_log_entry L entry \<and>
   e_normalized_request (normalize_log_entry L (normalize_log_entry L entry)) =
     e_normalized_request (normalize_log_entry L entry) \<and>
   e_normalized_raw (normalize_log_entry L (normalize_log_entry L entry)) =
     e_normalized_raw (normalize_log_entry L entry)"
  by (simp add: normalize_log_entry_def Let_def)

text \<open>
  The request \<open>%25252541\<close> carries four levels of percent-encoding; three decoding
  rounds leave \<open>%41\<close>.  Normalizing that normalized payload decodes once more and
  gives \<open>a\<close>: normalizing an already normalized payload does not produce the same
  result.
\<close>

theorem normalized_payload_not_fixed:
  "e_normalized_request (normalize_log_entry py_lib encoded_entry) = Some ''%41'' \<and>
   e_normalized_request (normalize_log_entry py_lib (blank_entry\<lparr>e_request := Some ''%41''\<rparr>)) =
     Some ''a''"
  by code_simp

text \<open>
  Claim C5, as amended.  Each normalized field is the decoded, stripped, lower-cased
  text when that text has at most 2000 characters, and otherwise its first and last
  1000 characters joined by the three-character elision marker; so a normalized field
  has at most 2003 characters.
\<close>

theorem normalized_length_capped:
  "e_normalized_request (normalize_log_entry L entry) =
     Some (if length (decoded_text L (e_request entry)) > 2000
           then first_last_1000 (decoded_text L (e_request entry))
           else decoded_text L (e_request entry)) \<and>
   e_normalized_raw (normalize_log_entry L entry) =
     Some (if length (decoded_text L (e_raw entry)) > 2000
           then first_last_1000 (decoded_text L (e_raw entry))
           else decoded_text L (e_raw entry)) \<and>
   (\<exists>r w. e_normalized_request (normalize_log_entry L entry) = Some r \<and>
          e_normalized_raw (normalize_log_entry L entry) = Some w \<and>
          length r \<le> 2003 \<and> length w \<le> 2003)"
proof -
  have lr: "length (if length (decoded_text L (e_request entry)) > 2000
           then first_last_1000 (decoded_text L (e_request entry))
           else decoded_text L (e_request entry)) \<le> 2003"
    by (rule guard_length)
  have lw: "length (if length (decoded_text L (e_raw entry)) > 2000
           then first_last_1000 (decoded_text L (e_raw entry))
           else decoded_text L (e_raw entry)) \<le> 2003"
    by (rule guard_length)
  show ?thesis using normalized_fields [of L entry] lr lw by blast
qed

text \<open>
  A request of 2001 letters \<open>a\<close> is decoded, stripped and lower-cased to itself;
  its normalized form has 1000 + 3 + 1000 = 2003 characters, more than 2000.
\<close>

theorem normalized_length_exceeds_2000:
  "map_option length (e_normalized_request (normalize_log_entry py_lib long_entry)) = Some 2003"
proof -
  have "e_request long_entry = Some (replicate 2001 CHR ''a'')"
    by (simp add: long_entry_def blank_entry_def)
  then show ?thesis
    using normalized_fields [of py_lib long_entry] decoded_text_long
    by (simp add: first_last_1000_def)
qed

section \<open>Properties of the response orchestrator\<close>

lemma response_steps_handled:
  "handled_incidents (fst (response_steps cfg env d sev ip rule ioc R)) = handled_incidents R"
  by (simp add: response_steps_def Let_def split: prod.splits option.splits)

lemma response_steps_latch_on_failure:
  "generate_raises env \<Longrightarrow>
   pdf_generated_for_run (fst (response_steps cfg env d sev ip rule ioc R)) =
   pdf_generated_for_run R"
  by (simp add: response_steps_def Let_def split: prod.splits option.splits)

lemma handle_detection_fresh:
  assumes "detection \<noteq> empty_detection"
    and "incident_key_of detection \<notin>
           set (map fst (cleanup_old_incidents now (handled_incidents R)))"
  shows "handle_detection cfg env now detection R =
     response_steps cfg env detection (get_or (d_severity detection) ''Low'')
       (get_or (d_ip detection) ''UNKNOWN'') (get_or (d_rule detection) ''Unknown Threat'')
       (d_ioc_hit detection = Some True)
       (R\<lparr>handled_incidents :=
            AList.update (incident_key_of detection) now
              (cleanup_old_incidents now (handled_incidents R))\<rparr>)"
  using assms by (simp add: handle_detection_def incident_key_of_def Let_def)

lemma handle_detection_stores_key:
  assumes "detection \<noteq> empty_detection"
    and "incident_key_of detection \<notin>
           set (map fst (cleanup_old_incidents now (handled_incidents R)))"
  shows "map_of (handled_incidents (fst (handle_detection cfg env now detection R)))
           (incident_key_of detection) = Some now"
  unfolding handle_detection_fresh [OF assms] response_steps_handled
  by (simp add: update_conv')

lemma key_survives_cleanup:
  assumes "map_of handled key = Some ts" and "now - ts \<le> dedup_ttl"
  shows "key \<in> set (map fst (cleanup_old_incidents now handled))"
proof -
  have "(key, ts) \<in> set handled"
    using assms(1) by (rule map_of_SomeD)
  then have "(key, ts) \<in> set (cleanup_old_incidents now handled)"
    using assms(2) by (simp add: cleanup_old_incidents_def)
  then show ?thesis by force
qed

lemma handle_detection_duplicate:
  assumes "incident_key_of detection \<in>
             set (map fst (cleanup_old_incidents now (handled_incidents R)))"
  shows "snd (handle_detection cfg env now detection R) = [] \<and>
         pdf_generated_for_run (fst (handle_detection cfg env now detection R)) =
         pdf_generated_for_run R"
  using assms by (simp add: handle_detection_def incident_key_of_def Let_def)

lemma detection0_fresh:
  "detection0 \<noteq> empty_detection \<and>
   incident_key_of detection0 \<notin>
     set (map fst (cleanup_old_incidents 0 (handled_incidents engine0)))"
  by (simp add: detection0_def empty_detection_def engine0_def cleanup_old_incidents_def)

text \<open>
  Claim C2.  Let a first invocation handle a detection whose key is not in the dedup
  table (after eviction), at time \<open>now1\<close>, and let a second invocation come with a
  detection of the same \<open>(ip, rule, severity)\<close> key at a time \<open>now2\<close> at most 10
  minutes later.  Then the second invocation makes no collaborator call and logs
  nothing, it leaves the report latch alone, and the calls of both invocations
  together are those of one run of the three steps.
\<close>

theorem duplicate_detection_suppressed:
  assumes "detection \<noteq> empty_detection"
    and "incident_key_of detection \<notin>
           set (map fst (cleanup_old_incidents now1 (handled_incidents R)))"
    and "incident_key_of detection' = incident_key_of detection"
    and "now2 - now1 \<le> dedup_ttl"
  shows "snd (handle_detection cfg env2 now2 detection'
               (fst (handle_detection cfg env1 now1 detection R))) = [] \<and>
         pdf_generated_for_run
           (fst (handle_detection cfg env2 now2 detection'
                  (fst (handle_detection cfg env1 now1 detection R)))) =
         pdf_generated_for_run (fst (handle_detection cfg env1 now1 detection R)) \<and>
         snd (handle_detection cfg env1 now1 detection R) @
         snd (handle_detection cfg env2 now2 detection'
               (fst (handle_detection cfg env1 now1 detection R))) =
         snd (response_steps cfg env1 detection (get_or (d_severity detection) ''Low'')
                (get_or (d_ip detection) ''UNKNOWN'')
                (get_or (d_rule detection) ''Unknown Threat'') (d_ioc_hit detection = Some True)
                (R\<lparr>handled_incidents :=
                     AList.update (incident_key_of detection) now1
                       (cleanup_old_incidents now1 (handled_incidents R))\<rparr>))"
proof -
  let ?R1 = "fst (handle_detection cfg env1 now1 detection R)"
  have stored: "map_of (handled_incidents ?R1) (incident_key_of detection') = Some now1"
    using handle_detection_stores_key [OF assms(1,2)] assms(3) by simp
  have present: "incident_key_of detection' \<in>
      set (map fst (cleanup_old_incidents now2 (handled_incidents ?R1)))"
    by (rule key_survives_cleanup [OF stored assms(4)])
  from handle_detection_duplicate [OF present]
  have dup: "snd (handle_detection cfg env2 now2 detection' ?R1) = []"
    "pdf_generated_for_run (fst (handle_detection cfg env2 now2 detection' ?R1)) =
     pdf_generated_for_run ?R1"
    by simp_all
  show ?thesis using dup handle_detection_fresh [OF assms(1,2), of cfg env1] by simp
qed

theorem duplicate_detection_suppressed_witness:
  "detection0 \<noteq> empty_detection \<and>
   incident_key_of detection0 \<notin>
     set (map fst (cleanup_old_incidents 0 (handled_incidents engine0))) \<and>
   (600000000 :: int) - 0 \<le> dedup_ttl \<and>
   snd (handle_detection policy_on all_ok 0 detection0 engine0) =
     [CallBlockIp ''203.0.113.9'' ''SQL Injection'' True, EmitIpBlocked,
      CallSendAlert detection0, CallGenerate detection0] \<and>
   snd (handle_detection policy_on all_ok 600000000 detection0
         (fst (handle_detection policy_on all_ok 0 detection0 engine0))) = []"
proof -
  have f: "detection0 \<noteq> empty_detection"
    "incident_key_of detection0 \<notin>
       set (map fst (cleanup_old_incidents 0 (handled_incidents engine0)))"
    using detection0_fresh by simp_all
  have t: "(600000000 :: int) - 0 \<le> dedup_ttl"
    by (simp add: dedup_ttl_def)
  have first: "snd (handle_detection policy_on all_ok 0 detection0 engine0) =
     [CallBlockIp ''203.0.113.9'' ''SQL Injection'' True, EmitIpBlocked,
      CallSendAlert detection0, CallGenerate detection0]"
    unfolding handle_detection_fresh [OF f]
    by (simp add: response_steps_def handle_firewall_def handle_email_def policy_on_def
        all_ok_def detection0_def engine0_def)
  from duplicate_detection_suppressed [OF f refl t, of policy_on all_ok all_ok]
  have "snd (handle_detection policy_on all_ok 600000000 detection0
         (fst (handle_detection policy_on all_ok 0 detection0 engine0))) = []"
    by (rule conjunct1)
  then show ?thesis using f t first by blast
qed

text \<open>
  Claim C10.  The dedup key is stored before the steps run.  When the firewall, alert
  and report collaborators all raise during the first handling of a detection, its key
  is in the dedup table with the time of that handling, the report latch is as before,
  and an identical detection arriving at most 10 minutes later is suppressed: none of
  the failed steps is tried again.
\<close>

theorem failed_steps_not_retried:
  assumes "detection \<noteq> empty_detection"
    and "incident_key_of detection \<notin>
           set (map fst (cleanup_old_incidents now1 (handled_incidents R)))"
    and "block_ip_raises env1" and "send_alert_raises env1" and "generate_raises env1"
    and "now2 - now1 \<le> dedup_ttl"
  shows "map_of (handled_incidents (fst (handle_detection cfg env1 now1 detection R)))
           (incident_key_of detection) = Some now1 \<and>
         pdf_generated_for_run (fst (handle_detection cfg env1 now1 detection R)) =
           pdf_generated_for_run R \<and>
         snd (handle_detection cfg env2 now2 detection
               (fst (handle_detection cfg env1 now1 detection R))) = []"
proof -
  let ?R1 = "fst (handle_detection cfg env1 now1 detection R)"
  have stored: "map_of (handled_incidents ?R1) (incident_key_of detection) = Some now1"
    by (rule handle_detection_stores_key [OF assms(1,2)])
  have latch: "pdf_generated_for_run ?R1 = pdf_generated_for_run R"
    unfolding handle_detection_fresh [OF assms(1,2)]
    using response_steps_latch_on_failure [OF assms(5)] by simp
  have present: "incident_key_of detection \<in>
      set (map fst (cleanup_old_incidents now2 (handled_incidents ?R1)))"
    by (rule key_survives_cleanup [OF stored assms(6)])
  have "snd (handle_detection cfg env2 now2 detection ?R1) = []"
    using handle_detection_duplicate [OF present] by simp
  then show ?thesis using stored latch by simp
qed

theorem failed_steps_not_retried_witness:
  "detection0 \<noteq> empty_detection \<and>
   incident_key_of detection0 \<notin>
     set (map fst (cleanup_old_incidents 0 (handled_incidents engine0))) \<and>
   block_ip_raises all_fail \<and> send_alert_raises all_fail \<and> generate_raises all_fail \<and>
   (600000000 :: int) - 0 \<le> dedup_ttl \<and>
   snd (handle_detection policy_on all_fail 0 detection0 engine0) =
     [CallBlockIp ''203.0.113.9'' ''SQL Injection'' True, LogError ''Firewall response failed'',
      CallSendAlert detection0, LogError ''Email alert failed'',
      CallGenerate detection0, LogError ''PDF generation failed''] \<and>
   map_of (handled_incidents (fst (handle_detection policy_on all_fail 0 detection0 engine0)))
     (incident_key_of detection0) = Some 0 \<and>
   snd (handle_detection policy_on all_ok 600000000 detection0
         (fst (handle_detection policy_on all_fail 0 detection0 engine0))) = []"
proof -
  have f: "detection0 \<noteq> empty_detection"
    "incident_key_of detection0 \<notin>
       set (map fst (cleanup_old_incidents 0 (handled_incidents engine0)))"
    using detection0_fresh by simp_all
  have r: "block_ip_raises all_fail" "send_alert_raises all_fail" "generate_raises all_fail"
    by (simp_all add: all_fail_def)
  have t: "(600000000 :: int) - 0 \<le> dedup_ttl"
    by (simp add: dedup_ttl_def)
  have first: "snd (handle_detection policy_on all_fail 0 detection0 engine0) =
     [CallBlockIp ''203.0.113.9'' ''SQL Injection'' True, LogError ''Firewall response failed'',
      CallSendAlert detection0, LogError ''Email alert failed'',
      CallGenerate detection0, LogError ''PDF generation failed'']"
    unfolding handle_detection_fresh [OF f]
    by (simp add: response_steps_def handle_firewall_def handle_email_def policy_on_def
        all_fail_def detection0_def engine0_def)
  from failed_steps_not_retried [OF f r t, of policy_on all_ok]
  show ?thesis using f r t first by blast
qed

section \<open>Properties of the correlation engine\<close>

lemma group_by_ip_single:
  "\<forall>d \<in> set ds. get_or (d_ip d) ''UNKNOWN'' = ip \<Longrightarrow>
   group_by_ip ds [(ip, es)] = [(ip, es @ ds)]"
  by (induction ds arbitrary: es) auto

lemma group_by_ip_one_address:
  assumes "ds \<noteq> []" and "\<forall>d \<in> set ds. get_or (d_ip d) ''UNKNOWN'' = ip"
  shows "group_by_ip ds [] = [(ip, ds)]"
proof (cases ds)
  case Nil
  then show ?thesis using assms(1) by simp
next
  case (Cons d ds')
  then show ?thesis using assms(2) group_by_ip_single [of ds' ip "[d]"] by simp
qed

lemma filter_time_window_all:
  assumes "\<forall>e \<in> set events. \<forall>l \<in> set events. in_window C T e l"
  shows "filter_time_window C T events = Inr events"
proof (cases "events = []")
  case True
  then show ?thesis by (simp add: filter_time_window_def)
next
  case False
  then have l: "last events \<in> set events" by simp
  then have "in_window C T (last events) (last events)" using assms by blast
  then obtain cutoff where
    c: "minus_delta (parse_time T (d_time (last events))) (time_window C) = Inr cutoff"
    by (auto simp: in_window_def window_cutoff_def split: sum.splits)
  have "\<forall>e \<in> set events. in_window C T e (last events)" using assms l by blast
  then have "\<forall>e \<in> set events. time_ge (parse_time T (d_time e)) cutoff \<noteq> Some False"
    using c by (simp add: in_window_def window_cutoff_def)
  then have "filter (\<lambda>e. case time_ge (parse_time T (d_time e)) cutoff of
                 Some keep \<Rightarrow> keep | None \<Rightarrow> True) events = events"
    by (intro filter_True) (auto split: option.splits)
  then show ?thesis using False c by (simp add: filter_time_window_def Let_def)
qed

lemma analyze_ip_brute_force:
  "filter (\<lambda>i. i_type i = ''Brute Force Login Attack'') (analyze_ip ip events) =
     (if 5 \<le> length (filter is_failed_login events)
      then [\<lparr>i_ip = ip, i_type = ''Brute Force Login Attack'', i_severity = ''High'',
             i_count = length (filter is_failed_login events),
             i_ioc_confirmed = list_ex (\<lambda>e. d_ioc_hit e = Some True) (filter is_failed_login events),
             i_evidence = filter is_failed_login events\<rparr>]
      else [])"
proof -
  have fl: "(\<lambda>e. contains ''Failed Login'' (get_or (d_rule e) [])) = is_failed_login"
    by (rule ext) (simp add: is_failed_login_def)
  show ?thesis
  proof (cases "events = []")
    case True
    then show ?thesis by (simp add: analyze_ip_def)
  next
    case False
    then show ?thesis unfolding analyze_ip_def Let_def fl by simp
  qed
qed


text \<open>
  Claim C6, as amended.  For a non-empty batch of detections that all carry the same
  source address and all lie in the correlation window of each other (the start of
  the window, the latest time minus the window, being a representable datetime): when
  five or more of them have a rule name containing \<open>Failed Login\<close>, \<open>correlate\<close>
  returns, with exactly one incident of type ``Brute Force Login Attack'', for that address, with
  severity High and with \<open>count\<close> equal to the number of those detections (five or
  more, not always five); with fewer than five it yields no incident of that type.
\<close>

theorem brute_force_incident:
  assumes "detections \<noteq> []"
    and "\<forall>d \<in> set detections. get_or (d_ip d) ''UNKNOWN'' = ip"
    and "\<forall>e \<in> set detections. \<forall>l \<in> set detections. in_window C T e l"
  shows "\<exists>incidents. correlate C T detections = Inr incidents \<and>
     filter (\<lambda>i. i_type i = ''Brute Force Login Attack'') incidents =
     (if 5 \<le> length (filter is_failed_login detections)
      then [\<lparr>i_ip = ip, i_type = ''Brute Force Login Attack'', i_severity = ''High'',
             i_count = length (filter is_failed_login detections),
             i_ioc_confirmed =
               list_ex (\<lambda>e. d_ioc_hit e = Some True) (filter is_failed_login detections),
             i_evidence =
               filter is_failed_login (sort_key (\<lambda>x. get_or (d_time x) []) detections)\<rparr>]
      else [])"
proof -
  define sorted where "sorted = sort_key (\<lambda>x. get_or (d_time x) []) detections"
  have set_sorted: "set sorted = set detections" by (simp add: sorted_def)
  have win: "filter_time_window C T sorted = Inr sorted"
    by (rule filter_time_window_all) (use assms(3) set_sorted in blast)
  have corr: "correlate C T detections = Inr (analyze_ip ip sorted)"
    using assms(1) group_by_ip_one_address [OF assms(1,2)] win
    by (simp add: correlate_def sorted_def Let_def)
  have len: "length (filter is_failed_login sorted) = length (filter is_failed_login detections)"
    unfolding sorted_def by (simp add: filter_sort)
  have ex: "list_ex (\<lambda>e. d_ioc_hit e = Some True) (filter is_failed_login sorted) =
            list_ex (\<lambda>e. d_ioc_hit e = Some True) (filter is_failed_login detections)"
    unfolding list_ex_iff using set_sorted by simp
  have "filter (\<lambda>i. i_type i = ''Brute Force Login Attack'') (analyze_ip ip sorted) =
     (if 5 \<le> length (filter is_failed_login detections)
      then [\<lparr>i_ip = ip, i_type = ''Brute Force Login Attack'', i_severity = ''High'',
             i_count = length (filter is_failed_login detections),
             i_ioc_confirmed =
               list_ex (\<lambda>e. d_ioc_hit e = Some True) (filter is_failed_login detections),
             i_evidence = filter is_failed_login sorted\<rparr>]
      else [])"
    unfolding analyze_ip_brute_force len ex by (rule refl)
  then show ?thesis using corr unfolding sorted_def by blast
qed

theorem brute_force_incident_witness:
  "six_failed_logins \<noteq> [] \<and>
   length (filter is_failed_login six_failed_logins) = 6 \<and>
   (\<exists>incidents. correlate corr0 timelib0 six_failed_logins = Inr incidents \<and>
      map i_count (filter (\<lambda>i. i_type i = ''Brute Force Login Attack'') incidents) = [6] \<and>
      map i_severity (filter (\<lambda>i. i_type i = ''Brute Force Login Attack'') incidents) =
        [''High''])"
proof -
  have h1: "six_failed_logins \<noteq> []"
    by (simp add: six_failed_logins_def)
  have h2: "\<forall>d \<in> set six_failed_logins. get_or (d_ip d) ''UNKNOWN'' = ''203.0.113.9''"
    by (simp add: six_failed_logins_def failed_login_def)
  have h3: "\<forall>e \<in> set six_failed_logins. \<forall>l \<in> set six_failed_logins. in_window corr0 timelib0 e l"
    by (simp add: six_failed_logins_def failed_login_def in_window_def window_cutoff_def
        parse_time_def timelib0_def corr0_def datetime_max_def)
  have n: "length (filter is_failed_login six_failed_logins) = 6"
    by code_simp
  from brute_force_incident [OF h1 h2 h3] obtain incidents where
    c: "correlate corr0 timelib0 six_failed_logins = Inr incidents"
    and f: "filter (\<lambda>i. i_type i = ''Brute Force Login Attack'') incidents =
     (if 5 \<le> length (filter is_failed_login six_failed_logins)
      then [\<lparr>i_ip = ''203.0.113.9'', i_type = ''Brute Force Login Attack'', i_severity = ''High'',
             i_count = length (filter is_failed_login six_failed_logins),
             i_ioc_confirmed =
               list_ex (\<lambda>e. d_ioc_hit e = Some True) (filter is_failed_login six_failed_logins),
             i_evidence =
               filter is_failed_login
                 (sort_key (\<lambda>x. get_or (d_time x) []) six_failed_logins)\<rparr>]
      else [])"
    by blast
  have r: "map i_count (filter (\<lambda>i. i_type i = ''Brute Force Login Attack'') incidents) = [6]"
    "map i_severity (filter (\<lambda>i. i_type i = ''Brute Force Login Attack'') incidents) =
       [''High'']"
    unfolding f using n by simp_all
  show ?thesis
  proof (intro conjI exI)
    show "six_failed_logins \<noteq> []" by (rule h1)
    show "length (filter is_failed_login six_failed_logins) = 6" by (rule n)
    show "correlate corr0 timelib0 six_failed_logins = Inr incidents" by (rule c)
    show "map i_count (filter (\<lambda>i. i_type i = ''Brute Force Login Attack'') incidents) = [6]"
      by (rule r(1))
    show "map i_severity (filter (\<lambda>i. i_type i = ''Brute Force Login Attack'') incidents) =
       [''High'']"
      by (rule r(2))
  qed
qed

text \<open>
  Six ``Failed Login'' detections from one address at the same time give one incident
  whose \<open>count\<close> is 6, not 5.
\<close>

theorem brute_force_count_six:
  "map_sum id (map i_type) (correlate corr0 timelib0 six_failed_logins) =
     Inr [''Brute Force Login Attack''] \<and>
   map_sum id (map i_count) (correlate corr0 timelib0 six_failed_logins) = Inr [6]"
  by code_simp

text \<open>
  Outside the hypothesis on the window's start: five ``Failed Login'' detections
  stamped \<open>0001-01-01 00:00:00\<close> make the cutoff fall before \<open>datetime.min\<close>, and
  \<open>correlate\<close> leaves with \<open>OverflowError\<close>.
\<close>

lemma correlate_year_one_raises:
  "correlate corr0 timelib0 year_one_logins = Inl OverflowError"
  by code_simp

section \<open>Properties of the reputation engine\<close>

lemma fetch_up: "fetch_feeds (http_get feeds_up) IOC_FEEDS {} = {''198.51.100.7'', ''203.0.113.9''}"
  by (simp add: feeds_up_def IOC_FEEDS_def strip_def is_space_def startswith_def insert_commute)

lemma fetch_down: "fetch_feeds (http_get feeds_down) IOC_FEEDS {} = {}"
  by (simp add: feeds_down_def IOC_FEEDS_def)

lemma update_throttled:
  "now - last_updated st < 3600 \<Longrightarrow> update_iocs env now st = (None, st, [])"
  by (simp add: update_iocs_def)

lemma update_success_last_updated:
  "\<not> now - last_updated st < 3600 \<Longrightarrow> fetch_feeds (http_get env) IOC_FEEDS {} \<noteq> {} \<Longrightarrow>
   last_updated (fst (snd (update_iocs env now st))) = now \<and>
   iocs (fst (snd (update_iocs env now st))) = fetch_feeds (http_get env) IOC_FEEDS {} \<and>
   snd (snd (update_iocs env now st)) = map snd IOC_FEEDS"
  by (simp add: update_iocs_def Let_def)

lemma update_no_data:
  "fetch_feeds (http_get env) IOC_FEEDS {} = {} \<Longrightarrow>
   fst (update_iocs env now st) = None \<and> fst (snd (update_iocs env now st)) = st"
  by (simp add: update_iocs_def Let_def)

text \<open>
  Claim C9, as amended.  A call of \<open>update_iocs\<close> less than 3600 seconds after
  \<open>last_updated\<close> (the time of the last successful update) requests nothing and
  returns the state as it is.  Hence, when the first of two calls performs a successful
  update (it is not throttled and the feeds return data) and the second comes less than
  one hour later, the second call requests nothing and changes nothing, and the two
  calls together make one request.  A refresh whose feeds return no data raises
  nothing and leaves the whole state, the set and \<open>last_updated\<close> included, as it
  was: such a refresh does not start the throttle.
\<close>

theorem refresh_throttled:
  "(now - last_updated st < 3600 \<longrightarrow> update_iocs env now st = (None, st, [])) \<and>
   (3600 \<le> now1 - last_updated st \<and> fetch_feeds (http_get env1) IOC_FEEDS {} \<noteq> {} \<and>
    now2 - now1 < 3600 \<longrightarrow>
      update_iocs env2 now2 (fst (snd (update_iocs env1 now1 st))) =
        (None, fst (snd (update_iocs env1 now1 st)), []) \<and>
      length (snd (snd (update_iocs env1 now1 st)) @
              snd (snd (update_iocs env2 now2 (fst (snd (update_iocs env1 now1 st)))))) = 1) \<and>
   (fetch_feeds (http_get env) IOC_FEEDS {} = {} \<longrightarrow>
      fst (update_iocs env now st) = None \<and> fst (snd (update_iocs env now st)) = st)"
proof -
  have a: "now - last_updated st < 3600 \<longrightarrow> update_iocs env now st = (None, st, [])"
    using update_throttled by blast
  have b: "3600 \<le> now1 - last_updated st \<and> fetch_feeds (http_get env1) IOC_FEEDS {} \<noteq> {} \<and>
    now2 - now1 < 3600 \<longrightarrow>
      update_iocs env2 now2 (fst (snd (update_iocs env1 now1 st))) =
        (None, fst (snd (update_iocs env1 now1 st)), []) \<and>
      length (snd (snd (update_iocs env1 now1 st)) @
              snd (snd (update_iocs env2 now2 (fst (snd (update_iocs env1 now1 st)))))) = 1"
  proof (intro impI, elim conjE)
    assume h: "3600 \<le> now1 - last_updated st" "fetch_feeds (http_get env1) IOC_FEEDS {} \<noteq> {}"
      "now2 - now1 < 3600"
    let ?s1 = "fst (snd (update_iocs env1 now1 st))"
    have n: "\<not> now1 - last_updated st < 3600" using h(1) by simp
    from update_success_last_updated [OF n h(2)]
    have lu: "last_updated ?s1 = now1" and rq: "snd (snd (update_iocs env1 now1 st)) = map snd IOC_FEEDS"
      by simp_all
    have second: "update_iocs env2 now2 ?s1 = (None, ?s1, [])"
      by (rule update_throttled) (simp add: lu h(3))
    show "update_iocs env2 now2 ?s1 = (None, ?s1, []) \<and>
      length (snd (snd (update_iocs env1 now1 st)) @ snd (snd (update_iocs env2 now2 ?s1))) = 1"
      using second rq by (simp add: IOC_FEEDS_def)
  qed
  have c: "fetch_feeds (http_get env) IOC_FEEDS {} = {} \<longrightarrow>
      fst (update_iocs env now st) = None \<and> fst (snd (update_iocs env now st)) = st"
    using update_no_data by blast
  show ?thesis using a b c by blast
qed

theorem refresh_throttled_witness:
  "(3600 :: real) \<le> 1700000000 - last_updated ioc_state0 \<and>
   fetch_feeds (http_get feeds_up) IOC_FEEDS {} = {''198.51.100.7'', ''203.0.113.9''} \<and>
   (1700003599 :: real) - 1700000000 < 3600 \<and>
   update_iocs feeds_up 1700003599 (fst (snd (update_iocs feeds_up 1700000000 ioc_state0))) =
     (None, fst (snd (update_iocs feeds_up 1700000000 ioc_state0)), []) \<and>
   fetch_feeds (http_get feeds_down) IOC_FEEDS {} = {} \<and>
   fst (snd (update_iocs feeds_down 1700000000 ioc_state0)) = ioc_state0"
proof -
  have a: "(3600 :: real) \<le> 1700000000 - last_updated ioc_state0"
    by (simp add: ioc_state0_def)
  have b: "fetch_feeds (http_get feeds_up) IOC_FEEDS {} \<noteq> {}"
    using fetch_up by simp
  have c: "(1700003599 :: real) - 1700000000 < 3600"
    by simp
  from refresh_throttled
         [where ?now1.0 = 1700000000 and st = ioc_state0 and ?env1.0 = feeds_up
            and ?now2.0 = 1700003599 and ?env2.0 = feeds_up and env = feeds_down
            and now = 1700000000]
  show ?thesis using a b c fetch_up fetch_down by simp
qed

text \<open>
  On a fresh engine whose feed is unreachable, two calls one second apart both request
  the feed: the first, failed refresh leaves \<open>last_updated\<close> at 0, so the second call
  is not throttled.
\<close>

theorem failed_refresh_fetches_twice:
  "snd (snd (update_iocs feeds_down 1700000000 ioc_state0)) @
   snd (snd (update_iocs feeds_down 1700000001
     (fst (snd (update_iocs feeds_down 1700000000 ioc_state0))))) =
   [''https://raw.githubusercontent.com/firehol/blocklist-ipsets/master/firehol_level1.netset'',
    ''https://raw.githubusercontent.com/firehol/blocklist-ipsets/master/firehol_level1.netset'']"
  unfolding update_iocs_def Let_def fetch_down by (simp add: ioc_state0_def IOC_FEEDS_def)

end
